theory Spec2Isabelle
  imports Complex_Main
begin

section \<open>Python values and errors\<close>

text \<open>
  The configuration is what \<^verbatim>\<open>yaml.load\<close> returns: a Python value built from
  \<^verbatim>\<open>None\<close>, booleans, integers, floats, strings, lists and dictionaries. The same type
  serves for every untyped Python value of \<^verbatim>\<open>app.py\<close> (the series name, an observation,
  the dictionary of a message).

  Python floats are modelled by \<open>real\<close>: rounding, overflow, infinities and NaN are left
  out. A dictionary keeps the entries whose key is a string (the program looks up string
  keys only), as an association list read with \<open>map_of\<close>.
\<close>

datatype pyval =
    PNone
  | PBool bool
  | PInt int
  | PFloat real
  | PStr string
  | PList "pyval list"
  | PDict "(string \<times> pyval) list"

text \<open>
  The exceptions of the program, as values. \<open>ValueError\<close> carries the text of the message
  (a format template where the source calls \<^verbatim>\<open>format\<close>) and the arguments formatted
  into it.
\<close>

datatype error =
    KeyError string
  | TypeError
  | AttributeError
  | IndexError
  | UnboundLocalError string
  | ValueError string "pyval list"
  | ExternalError string

definition err_bind :: "error + 'a \<Rightarrow> ('a \<Rightarrow> error + 'b) \<Rightarrow> error + 'b" where
  "err_bind m f = (case m of Inl e \<Rightarrow> Inl e | Inr x \<Rightarrow> f x)"

text \<open>\<^verbatim>\<open>v[k]\<close> for a string key: only a dictionary can be indexed by a string.\<close>

fun getitem :: "pyval \<Rightarrow> string \<Rightarrow> error + pyval" where
  "getitem (PDict kvs) k = (case map_of kvs k of None \<Rightarrow> Inl (KeyError k) | Some v \<Rightarrow> Inr v)"
| "getitem _ k = Inl TypeError"

fun is_substring :: "string \<Rightarrow> string \<Rightarrow> bool" where
  "is_substring k [] = (k = [])"
| "is_substring k (c # cs) = (take (length k) (c # cs) = k \<or> is_substring k cs)"

text \<open>
  \<^verbatim>\<open>k in v\<close> for a string \<open>k\<close>: a key of a dictionary, a substring of a string, an element
  of a list; any other value is not iterable.
\<close>

fun contains :: "string \<Rightarrow> pyval \<Rightarrow> error + bool" where
  "contains k (PDict kvs) = Inr (map_of kvs k \<noteq> None)"
| "contains k (PStr s) = Inr (is_substring k s)"
| "contains k (PList xs) = Inr (PStr k \<in> set xs)"
| "contains k _ = Inl TypeError"

text \<open>
  The built-in conversions \<^verbatim>\<open>float\<close> and \<^verbatim>\<open>int\<close>. How Python reads a number out of a
  string is a parameter (\<open>float_str\<close>, \<open>int_str\<close>: \<open>None\<close> where Python raises
  \<^verbatim>\<open>ValueError\<close>), as is \<^verbatim>\<open>json.dumps\<close>.
\<close>

record builtins =
  float_str :: "string \<Rightarrow> real option"
  int_str :: "string \<Rightarrow> int option"
  json_dumps :: "pyval \<Rightarrow> error + string"

fun py_float :: "builtins \<Rightarrow> pyval \<Rightarrow> error + real" where
  "py_float B (PInt n) = Inr (of_int n)"
| "py_float B (PFloat r) = Inr r"
| "py_float B (PBool b) = Inr (if b then 1 else 0)"
| "py_float B (PStr s) =
     (case float_str B s of
        None \<Rightarrow> Inl (ValueError ''could not convert string to float: {}'' [PStr s])
      | Some r \<Rightarrow> Inr r)"
| "py_float B _ = Inl TypeError"

fun py_int :: "builtins \<Rightarrow> pyval \<Rightarrow> error + int" where
  "py_int B (PInt n) = Inr n"
| "py_int B (PFloat r) = Inr (if 0 \<le> r then \<lfloor>r\<rfloor> else \<lceil>r\<rceil>)"
| "py_int B (PBool b) = Inr (if b then 1 else 0)"
| "py_int B (PStr s) =
     (case int_str B s of
        None \<Rightarrow> Inl (ValueError ''invalid literal for int() with base 10: {}'' [PStr s])
      | Some n \<Rightarrow> Inr n)"
| "py_int B _ = Inl TypeError"

text \<open>A value used as a count (\<^verbatim>\<open>bool\<close> is a subtype of \<^verbatim>\<open>int\<close> in Python).\<close>

fun py_index :: "pyval \<Rightarrow> int option" where
  "py_index (PInt n) = Some n"
| "py_index (PBool b) = Some (if b then 1 else 0)"
| "py_index _ = None"

text \<open>\<^verbatim>\<open>xs * n\<close> on a list: a count below one gives the empty list.\<close>

definition list_times :: "'a list \<Rightarrow> pyval \<Rightarrow> error + 'a list" where
  "list_times xs n =
     (case py_index n of
        None \<Rightarrow> Inl TypeError
      | Some k \<Rightarrow> Inr (concat (replicate (nat k) xs)))"

text \<open>\<^verbatim>\<open>s.split(sep)\<close> for a one-character separator: one piece more than separators.\<close>

fun split :: "char \<Rightarrow> string \<Rightarrow> string list" where
  "split sep [] = [[]]"
| "split sep (c # cs) =
     (if c = sep then [] # split sep cs
      else (case split sep cs of
              [] \<Rightarrow> [[c]]
            | p # ps \<Rightarrow> (c # p) # ps))"

text \<open>\<^verbatim>\<open>v.split(',')\<close> on an untyped value: only a string has the method.\<close>

fun py_split :: "pyval \<Rightarrow> error + string list" where
  "py_split (PStr s) = Inr (split CHR '','' s)"
| "py_split _ = Inl AttributeError"

text \<open>Iterating a value with \<^verbatim>\<open>for\<close>: a string gives its characters, a dictionary its keys.\<close>

fun py_iter :: "pyval \<Rightarrow> error + pyval list" where
  "py_iter (PList xs) = Inr xs"
| "py_iter (PStr s) = Inr (map (\<lambda>c. PStr [c]) s)"
| "py_iter (PDict kvs) = Inr (map (\<lambda>kv. PStr (fst kv)) kvs)"
| "py_iter _ = Inl TypeError"

fun mapM :: "('a \<Rightarrow> error + 'b) \<Rightarrow> 'a list \<Rightarrow> error + 'b list" where
  "mapM f [] = Inr []"
| "mapM f (x # xs) =
     err_bind (f x) (\<lambda>y. err_bind (mapM f xs) (\<lambda>ys. Inr (y # ys)))"

section \<open>Matrices and structures of the modelling library\<close>

type_synonym matrix = "real list list"

definition np_identity :: "nat \<Rightarrow> matrix" where
  "np_identity n = map (\<lambda>i. map (\<lambda>j. if i = j then 1 else 0) [0..<n]) [0..<n]"

definition scale_matrix :: "matrix \<Rightarrow> real \<Rightarrow> matrix" where
  "scale_matrix M c = map (map (\<lambda>x. x * c)) M"

definition shape0 :: "matrix \<Rightarrow> nat" where
  "shape0 M = length M"

definition ncols :: "matrix \<Rightarrow> nat" where
  "ncols M = (case M of [] \<Rightarrow> 0 | r # _ \<Rightarrow> length r)"

definition is_square :: "nat \<Rightarrow> matrix \<Rightarrow> bool" where
  "is_square n M = (length M = n \<and> list_all (\<lambda>r. length r = n) M)"

definition block_diag :: "matrix \<Rightarrow> matrix \<Rightarrow> matrix" where
  "block_diag A B =
     map (\<lambda>r. r @ replicate (ncols B) 0) A @ map (\<lambda>r. replicate (ncols A) 0 @ r) B"

text \<open>
  \<^verbatim>\<open>np.identity(n)\<close> for an untyped \<open>n\<close>: a value that is no integer is a
  \<^verbatim>\<open>TypeError\<close>, a negative one a \<^verbatim>\<open>ValueError\<close>.
\<close>

definition np_identity_py :: "pyval \<Rightarrow> error + matrix" where
  "np_identity_py n =
     (case py_index n of
        None \<Rightarrow> Inl TypeError
      | Some k \<Rightarrow>
          if k < 0 then Inl (ValueError ''negative dimensions are not allowed'' [])
          else Inr (np_identity (nat k)))"

text \<open>\<^verbatim>\<open>2 * v\<close> for an untyped \<open>v\<close> that is a number; any other product is no dimension.\<close>

fun twice :: "pyval \<Rightarrow> pyval" where
  "twice (PInt n) = PInt (2 * n)"
| "twice (PBool b) = PInt (if b then 2 else 0)"
| "twice (PFloat r) = PFloat (2 * r)"
| "twice v = PNone"

text \<open>
  A structure of the external library \<^verbatim>\<open>pssm\<close> is kept as the call that built it:
  the three constructors of \<^verbatim>\<open>UnivariateStructure\<close> that \<^verbatim>\<open>app.py\<close> calls, with the
  arguments it passes, and the sum \<^verbatim>\<open>x + y\<close> of two structures.
\<close>

datatype "structure" =
    locally_constant real
  | cyclic_fourier int pyval matrix
  | arma nat "real list" real
  | structure_add "structure" "structure"

text \<open>
  Modelled from the spec: the noise covariance \<^verbatim>\<open>structure.W\<close> of a structure, which
  the library computes (sections 3 and 4.1 of the specification: a square matrix of the
  side of the block; \<open>[[W]]\<close> for a locally constant block, the matrix passed in for a
  seasonal block, the block-diagonal union for a sum). For an autoregressive block of
  order \<open>p\<close> the specification fixes the side only; the scalar noise is put on the first
  diagonal entry.
\<close>

fun structure_W :: "structure \<Rightarrow> matrix" where
  "structure_W (locally_constant w) = [[w]]"
| "structure_W (cyclic_fourier period harmonics Wm) = Wm"
| "structure_W (arma p betas w) =
     map (\<lambda>i. map (\<lambda>j. if i = 0 \<and> j = 0 then w else 0) [0..<p]) [0..<p]"
| "structure_W (structure_add x y) = block_diag (structure_W x) (structure_W y)"

section \<open>Anomaly functions\<close>

text \<open>
  The two lambdas of \<^verbatim>\<open>_parse_component\<close>, as closures:
  \<open>Identity\<close> is \<^verbatim>\<open>lambda x: x\<close>, and \<open>Bernoulli anom_conf\<close> is
  \<^verbatim>\<open>lambda x: x * float(anom_conf['scale']) if random.random() < anom_conf['probability'] else x\<close>,
  which captures the dictionary \<open>anom_conf\<close> and reads it at every call.
\<close>

datatype anomaly = Identity | Bernoulli pyval

text \<open>The float an untyped value is compared as, when it is a number.\<close>

fun py_number :: "pyval \<Rightarrow> real option" where
  "py_number (PInt n) = Some (of_int n)"
| "py_number (PFloat r) = Some r"
| "py_number (PBool b) = Some (if b then 1 else 0)"
| "py_number _ = None"

text \<open>\<^verbatim>\<open>u < v\<close> for a float \<open>u\<close> and an untyped \<open>v\<close> (Python 3: no order on other types).\<close>

definition float_less :: "real \<Rightarrow> pyval \<Rightarrow> error + bool" where
  "float_less u v = (case py_number v of None \<Rightarrow> Inl TypeError | Some r \<Rightarrow> Inr (u < r))"

text \<open>
  One call of an anomaly function, given the value \<open>u\<close> that \<^verbatim>\<open>random.random()\<close>
  returns if it is called. The result is the factor the argument is multiplied by
  (\<open>None\<close>: the argument is returned as it is) and whether the random number was used.
  The condition is evaluated before the product, so the scale is read only when the
  trial succeeds.
\<close>

fun anomaly_gate :: "builtins \<Rightarrow> anomaly \<Rightarrow> real \<Rightarrow> (error + real option) \<times> bool" where
  "anomaly_gate B Identity u = (Inr None, False)"
| "anomaly_gate B (Bernoulli anom_conf) u =
     (err_bind (getitem anom_conf ''probability'') (\<lambda>p.
      err_bind (float_less u p) (\<lambda>hit.
        if hit then
          err_bind (getitem anom_conf ''scale'') (\<lambda>s.
          err_bind (py_float B s) (\<lambda>k. Inr (Some k)))
        else Inr None)), True)"

section \<open>The component builder\<close>

text \<open>
  The functions of \<^verbatim>\<open>app.py\<close> keep their names, without the leading underscore of
  \<^verbatim>\<open>_parse_component\<close>, \<^verbatim>\<open>_parse_structure\<close>, \<^verbatim>\<open>_parse_composite\<close>,
  \<^verbatim>\<open>_parse_observations\<close> and \<^verbatim>\<open>_read_conf\<close>. A function that raises returns
  \<open>Inl\<close> of the exception. The constructors of the external library are taken to
  succeed on the arguments they are given.
\<close>

text \<open>The template \<^verbatim>\<open>"Unknown component type '{}'"\<close> of line 70.\<close>

definition unknown_component_type :: string where
  "unknown_component_type = ''Unknown component type '' @ [CHR 0x27] @ ''{}'' @ [CHR 0x27]"

text \<open>Lines 40 to 70 of \<^verbatim>\<open>_parse_component\<close>: the structure and the prior mean.\<close>

definition component_structure :: "builtins \<Rightarrow> pyval \<Rightarrow> error + (structure \<times> pyval list)" where
  "component_structure B conf =
     err_bind (getitem conf ''type'') (\<lambda>type.
       if type = PStr ''mean'' then
         err_bind (getitem conf ''noise'') (\<lambda>noise.
         err_bind (py_float B noise) (\<lambda>W.
         err_bind (getitem conf ''start'') (\<lambda>start.
           Inr (locally_constant W, [start]))))
       else if type = PStr ''season'' then
         err_bind (contains ''harmonics'' conf) (\<lambda>has.
         err_bind (if has then getitem conf ''harmonics'' else Inr (PInt 3)) (\<lambda>nharmonics.
         err_bind (np_identity_py (twice nharmonics)) (\<lambda>I.
         err_bind (getitem conf ''noise'') (\<lambda>noise.
         err_bind (py_float B noise) (\<lambda>f.
         err_bind (getitem conf ''start'') (\<lambda>start.
         err_bind (getitem conf ''period'') (\<lambda>pv.
         err_bind (py_int B pv) (\<lambda>period.
           Inr (cyclic_fourier period nharmonics (scale_matrix I f),
                replicate (shape0 (scale_matrix I f)) start)))))))))
       else if type = PStr ''arma'' then
         err_bind (contains ''coefficients'' conf) (\<lambda>has.
         err_bind (if has then
                     err_bind (getitem conf ''coefficients'') (\<lambda>cs.
                     err_bind (py_split cs) (\<lambda>ps.
                       mapM (\<lambda>p. py_float B (PStr p)) ps))
                   else Inr [1]) (\<lambda>coefficients.
         err_bind (getitem conf ''noise'') (\<lambda>nv.
         err_bind (py_float B nv) (\<lambda>noise.
         err_bind (getitem conf ''start'') (\<lambda>start.
           Inr (arma (length coefficients) coefficients noise,
                replicate (length coefficients) start))))))
       else Inl (ValueError unknown_component_type [type]))"

text \<open>
  Lines 72 to 86: the anomaly functions. When the \<^verbatim>\<open>anomalies\<close> block lacks one of
  its two fields, no branch assigns the local variable \<^verbatim>\<open>anomalies\<close>, and line 86
  reads it.
\<close>

definition component_anomalies :: "pyval \<Rightarrow> structure \<Rightarrow> error + anomaly list" where
  "component_anomalies conf s =
     err_bind (contains ''anomalies'' conf) (\<lambda>has.
       if has then
         err_bind (getitem conf ''anomalies'') (\<lambda>anom_conf.
         err_bind (contains ''probability'' anom_conf) (\<lambda>hp.
         err_bind (if hp then contains ''scale'' anom_conf else Inr False) (\<lambda>both.
           if both then Inr (replicate (shape0 (structure_W s)) (Bernoulli anom_conf))
           else Inl (UnboundLocalError ''anomalies''))))
       else Inr (replicate (shape0 (structure_W s)) Identity))"

definition parse_component :: "builtins \<Rightarrow> pyval \<Rightarrow> error + (structure \<times> anomaly list \<times> pyval list)" where
  "parse_component B conf =
     err_bind (component_structure B conf) (\<lambda>(s, m0).
     err_bind (component_anomalies conf s) (\<lambda>anomalies.
       Inr (s, anomalies, m0)))"


section \<open>The structure composer\<close>

text \<open>\<^verbatim>\<open>reduce(f, xs)\<close> with no initial value: a \<^verbatim>\<open>TypeError\<close> on the empty list.\<close>

fun reduce :: "('a \<Rightarrow> 'a \<Rightarrow> 'a) \<Rightarrow> 'a list \<Rightarrow> error + 'a" where
  "reduce f [] = Inl TypeError"
| "reduce f (x # xs) = Inr (foldl f x xs)"

definition np_eye :: "nat \<Rightarrow> matrix" where
  "np_eye n = np_identity n"

text \<open>The loop of lines 96 to 100, on the three lists it extends.\<close>

fun structure_loop ::
  "builtins \<Rightarrow> pyval list \<Rightarrow> structure list \<times> pyval list \<times> anomaly list \<Rightarrow>
   error + (structure list \<times> pyval list \<times> anomaly list)" where
  "structure_loop B [] acc = Inr acc"
| "structure_loop B (c # cs) (structures, m0, anomalies) =
     err_bind (parse_component B c) (\<lambda>(s, a, m).
       structure_loop B cs (structures @ [s], m0 @ m, anomalies @ a))"

definition parse_structure ::
  "builtins \<Rightarrow> pyval \<Rightarrow> error + (structure \<times> pyval list \<times> matrix \<times> anomaly list)" where
  "parse_structure B conf =
     err_bind (py_iter conf) (\<lambda>cs.
     err_bind (structure_loop B cs ([], [], [])) (\<lambda>(structures, m0, anomalies).
     err_bind (reduce structure_add structures) (\<lambda>s.
       Inr (s, m0, np_eye (length m0), anomalies))))"

section \<open>The observation binder\<close>

text \<open>
  The models, kept as the calls that build them: three classes of the external library
  and the two transformers of the repository's module \<^verbatim>\<open>transformers\<close>.
\<close>

datatype model =
    NormalDLM "structure" pyval
  | PoissonDLM "structure"
  | BinomialTransformer "structure" "string list"
  | BinomialDLM "structure" pyval
  | CompositeTransformer "model list"

text \<open>The message of line 147.\<close>

definition categorical_needs :: string where
  "categorical_needs =
     ''Categorical models must have either '' @ [CHR 0x27] @ ''values'' @ [CHR 0x27] @
     '' or '' @ [CHR 0x27] @ ''categories'' @ [CHR 0x27]"

definition parse_observations :: "pyval \<Rightarrow> structure \<Rightarrow> error + model" where
  "parse_observations obs s =
     err_bind (getitem obs ''type'') (\<lambda>type.
       if type = PStr ''continuous'' then
         err_bind (getitem obs ''noise'') (\<lambda>V. Inr (NormalDLM s V))
       else if type = PStr ''discrete'' then Inr (PoissonDLM s)
       else if type = PStr ''categorical'' then
         err_bind (contains ''values'' obs) (\<lambda>hv.
           if hv then
             err_bind (getitem obs ''values'') (\<lambda>v.
             err_bind (py_split v) (\<lambda>values. Inr (BinomialTransformer s values)))
           else
             err_bind (contains ''categories'' obs) (\<lambda>hc.
               if hc then
                 err_bind (getitem obs ''categories'') (\<lambda>c. Inr (BinomialDLM s c))
               else Inl (ValueError categorical_needs [])))
       else Inl (ValueError ''Model type {} is not valid'' [type]))"

section \<open>The composite assembler\<close>

text \<open>
  An entry of the list \<^verbatim>\<open>prior_mean\<close>: a plain element extends the list by the entries
  of its mean vector, a replicated element by the vector itself, as many times as it is
  replicated. \<^verbatim>\<open>np.array(prior_mean)\<close> is kept as the list of these entries, which is
  what \<^verbatim>\<open>len\<close> counts.
\<close>

datatype entry = Elem pyval | Row "pyval list"

text \<open>
  One iteration of the loop of lines 112 to 126: what an element appends to the three
  lists \<^verbatim>\<open>models\<close>, \<^verbatim>\<open>prior_mean\<close> and \<^verbatim>\<open>anomaly_vector\<close>.
\<close>

definition composite_element ::
  "builtins \<Rightarrow> pyval \<Rightarrow> error + (model list \<times> entry list \<times> anomaly list)" where
  "composite_element B element =
     err_bind (contains ''replicate'' element) (\<lambda>rep.
       if rep then
         err_bind (getitem element ''structure'') (\<lambda>sc.
         err_bind (parse_structure B sc) (\<lambda>(s, m0, C0, anomalies).
         err_bind (getitem element ''replicate'') (\<lambda>n.
         err_bind (list_times [Row m0] n) (\<lambda>pm.
         err_bind (list_times anomalies n) (\<lambda>av.
         err_bind (getitem element ''observations'') (\<lambda>oc.
         err_bind (parse_observations oc s) (\<lambda>model.
         err_bind (list_times [model] n) (\<lambda>ms.
           Inr (ms, pm, av)))))))))
       else
         err_bind (getitem element ''structure'') (\<lambda>sc.
         err_bind (parse_structure B sc) (\<lambda>(s, m0, C0, anomalies).
         err_bind (getitem element ''observations'') (\<lambda>oc.
         err_bind (parse_observations oc s) (\<lambda>model.
           Inr ([model], map Elem m0, anomalies))))))"

fun composite_loop ::
  "builtins \<Rightarrow> pyval list \<Rightarrow> model list \<times> entry list \<times> anomaly list \<Rightarrow>
   error + (model list \<times> entry list \<times> anomaly list)" where
  "composite_loop B [] acc = Inr acc"
| "composite_loop B (element # rest) (models, prior_mean, anomaly_vector) =
     err_bind (composite_element B element) (\<lambda>(ms, pm, av).
       composite_loop B rest (models @ ms, prior_mean @ pm, anomaly_vector @ av))"

definition parse_composite ::
  "builtins \<Rightarrow> pyval \<Rightarrow> error + (model \<times> entry list \<times> matrix \<times> anomaly list)" where
  "parse_composite B conf =
     err_bind (py_iter conf) (\<lambda>elements.
     err_bind (composite_loop B elements ([], [], [])) (\<lambda>(models, prior_mean, anomaly_vector).
       Inr (CompositeTransformer models, prior_mean, np_eye (length prior_mean),
            anomaly_vector)))"

section \<open>The world outside the program\<close>

text \<open>
  What the program does to the outside is a trace of events: the prior sampled
  (\<^verbatim>\<open>mvn(m0, C0).rvs()\<close>, line 167), a message handed to the producer, a pause. The world
  also holds the numbers \<^verbatim>\<open>random.random()\<close> will return (each in \<open>[0, 1)\<close>), how many
  of them were drawn, and the state \<open>'g\<close> of the random generator of \<^verbatim>\<open>numpy\<close>, which the
  external models and the sampler use.
\<close>

datatype event = Rvs "entry list" matrix | Send string string | Sleep real

record 'g world =
  randoms :: "nat \<Rightarrow> real"
  drawn :: nat
  np_rng :: 'g
  trace :: "event list"

text \<open>
  The external collaborators, as parameters: the file system and the YAML parser, the
  sampler of a multivariate normal, and the two capabilities of a model (section 6 of the
  specification), which may fail. A state is the list of its entries; the scalar that
  the sampler returns for one dimension is the list of one entry.
\<close>

record 'g library =
  open_file :: "string \<Rightarrow> error + string"
  yaml_load :: "string \<Rightarrow> error + pyval"
  is_yaml_error :: "error \<Rightarrow> bool"
  mvn_rvs :: "entry list \<Rightarrow> matrix \<Rightarrow> 'g \<Rightarrow> error + (real list \<times> 'g)"
  model_observation :: "model \<Rightarrow> real list \<Rightarrow> 'g \<Rightarrow> error + (pyval \<times> 'g)"
  model_state :: "model \<Rightarrow> real list \<Rightarrow> 'g \<Rightarrow> error + (real list \<times> 'g)"

text \<open>\<^verbatim>\<open>_read_conf\<close>: a \<^verbatim>\<open>YAMLError\<close> is printed and \<^verbatim>\<open>None\<close> is returned.\<close>

definition read_conf :: "'g library \<Rightarrow> string \<Rightarrow> error + pyval" where
  "read_conf L conf =
     err_bind (open_file L conf) (\<lambda>stream.
       case yaml_load L stream of
         Inl e \<Rightarrow> if is_yaml_error L e then Inr PNone else Inl e
       | Inr d \<Rightarrow> Inr d)"

section \<open>Parsing a configuration\<close>

text \<open>Lines 161 to 165 of \<^verbatim>\<open>parse_configuration\<close>: the model, the prior and the anomalies.\<close>

definition configuration_model ::
  "builtins \<Rightarrow> pyval \<Rightarrow> error + (model \<times> entry list \<times> matrix \<times> anomaly list)" where
  "configuration_model B conf =
     err_bind (contains ''compose'' conf) (\<lambda>composed.
       if composed then
         err_bind (getitem conf ''compose'') (\<lambda>cc. parse_composite B cc)
       else
         err_bind (getitem conf ''structure'') (\<lambda>sc.
         err_bind (parse_structure B sc) (\<lambda>(s, m0, C0, anomalies).
         err_bind (getitem conf ''observations'') (\<lambda>oc.
         err_bind (parse_observations oc s) (\<lambda>model.
           Inr (model, map Elem m0, C0, anomalies))))))"

text \<open>Lines 169 and 171: the period and the name, read after the state is sampled.\<close>

definition period_and_name :: "builtins \<Rightarrow> pyval \<Rightarrow> error + (real \<times> pyval)" where
  "period_and_name B conf =
     err_bind (getitem conf ''period'') (\<lambda>pv.
     err_bind (py_float B pv) (\<lambda>period.
     err_bind (getitem conf ''name'') (\<lambda>name. Inr (period, name))))"

definition parse_configuration ::
  "builtins \<Rightarrow> 'g library \<Rightarrow> pyval \<Rightarrow> 'g world \<Rightarrow>
   (error + (model \<times> real list \<times> real \<times> pyval \<times> anomaly list)) \<times> 'g world" where
  "parse_configuration B L conf w =
     (case configuration_model B conf of
        Inl e \<Rightarrow> (Inl e, w)
      | Inr (model, m0, C0, anomalies) \<Rightarrow>
          (case mvn_rvs L m0 C0 (np_rng w) of
             Inl e \<Rightarrow> (Inl e, w)
           | Inr (state, g) \<Rightarrow>
               (case period_and_name B conf of
                  Inl e \<Rightarrow> (Inl e, w\<lparr>np_rng := g, trace := trace w @ [Rvs m0 C0]\<rparr>)
                | Inr (period, name) \<Rightarrow>
                    (Inr (model, state, period, name, anomalies),
                     w\<lparr>np_rng := g, trace := trace w @ [Rvs m0 C0]\<rparr>))))"

section \<open>Messages\<close>

text \<open>
  \<^verbatim>\<open>str.encode()\<close>: a \<open>string\<close> of the model is a sequence of bytes, the UTF-8 encoding
  of the Python string, so encoding changes nothing.
\<close>

definition encode :: "string \<Rightarrow> string" where
  "encode s = s"

definition build_message :: "builtins \<Rightarrow> pyval \<Rightarrow> pyval \<Rightarrow> error + string" where
  "build_message B name v =
     err_bind (json_dumps B (PDict [(''name'', name), (''value'', v)])) (\<lambda>s. Inr (encode s))"

section \<open>The simulation loop\<close>

text \<open>
  A call \<^verbatim>\<open>a(x)\<close> of an anomaly function in a world: the next random number is consumed
  when the function draws one. \<open>mul\<close> is the product of the argument's type with a
  float: of a scalar, or of every entry of an array.
\<close>

definition call_anomaly ::
  "builtins \<Rightarrow> ('a \<Rightarrow> real \<Rightarrow> 'a) \<Rightarrow> anomaly \<Rightarrow> 'a \<Rightarrow> 'g world \<Rightarrow> (error + 'a) \<times> 'g world" where
  "call_anomaly B mul a x w =
     (case anomaly_gate B a (randoms w (drawn w)) of
        (r, used) \<Rightarrow>
          (case r of
             Inl e \<Rightarrow> Inl e
           | Inr None \<Rightarrow> Inr x
           | Inr (Some k) \<Rightarrow> Inr (mul x k),
           if used then w\<lparr>drawn := Suc (drawn w)\<rparr> else w))"

definition array_times :: "real list \<Rightarrow> real \<Rightarrow> real list" where
  "array_times xs k = map (\<lambda>x. x * k) xs"

text \<open>\<^verbatim>\<open>xs[i]\<close> for an index that is not negative.\<close>

definition py_nth :: "'a list \<Rightarrow> nat \<Rightarrow> error + 'a" where
  "py_nth xs i = (if i < length xs then Inr (xs ! i) else Inl IndexError)"

text \<open>
  The loop of lines 214 to 217 over the indices still to visit: \<open>state\<close> is read,
  the copy \<open>perturbed\<close> (\<^verbatim>\<open>_state\<close>) is written.
\<close>

fun perturb_loop ::
  "builtins \<Rightarrow> anomaly list \<Rightarrow> real list \<Rightarrow> nat list \<Rightarrow> real list \<Rightarrow> 'g world \<Rightarrow>
   (error + real list) \<times> 'g world" where
  "perturb_loop B anomalies state [] perturbed w = (Inr perturbed, w)"
| "perturb_loop B anomalies state (i # js) perturbed w =
     (case py_nth anomalies i of
        Inl e \<Rightarrow> (Inl e, w)
      | Inr a \<Rightarrow>
          (case call_anomaly B (*) a (state ! i) w of
             (Inl e, w') \<Rightarrow> (Inl e, w')
           | (Inr v, w') \<Rightarrow> perturb_loop B anomalies state js (perturbed[i := v]) w'))"

text \<open>Lines 206 to 217: the perturbed state \<^verbatim>\<open>_state\<close>.\<close>

definition perturb ::
  "builtins \<Rightarrow> anomaly list \<Rightarrow> real list \<Rightarrow> 'g world \<Rightarrow> (error + real list) \<times> 'g world" where
  "perturb B anomalies state w =
     (let dimensions = length state in
      if dimensions = 1 then
        (case py_nth anomalies 0 of
           Inl e \<Rightarrow> (Inl e, w)
         | Inr a \<Rightarrow> call_anomaly B array_times a state w)
      else perturb_loop B anomalies state [0..<dimensions] state w)"

text \<open>
  Lines 219 to 225, after the perturbation: observe, advance, send and sleep.
  \<^verbatim>\<open>time.sleep\<close> refuses a negative length.
\<close>

definition emit ::
  "builtins \<Rightarrow> 'g library \<Rightarrow> string \<Rightarrow> model \<Rightarrow> real \<Rightarrow> pyval \<Rightarrow> real list \<Rightarrow> real list \<Rightarrow>
   'g world \<Rightarrow> (error + real list) \<times> 'g world" where
  "emit B L topic model period name state perturbed w =
     (case model_observation L model perturbed (np_rng w) of
        Inl e \<Rightarrow> (Inl e, w)
      | Inr (y, g1) \<Rightarrow>
          (case model_state L model state g1 of
             Inl e \<Rightarrow> (Inl e, w\<lparr>np_rng := g1\<rparr>)
           | Inr (state', g2) \<Rightarrow>
               (case build_message B name y of
                  Inl e \<Rightarrow> (Inl e, w\<lparr>np_rng := g2\<rparr>)
                | Inr message \<Rightarrow>
                    if period < 0 then
                      (Inl (ValueError ''sleep length must be non-negative'' []),
                       w\<lparr>np_rng := g2, trace := trace w @ [Send topic message]\<rparr>)
                    else
                      (Inr state',
                       w\<lparr>np_rng := g2,
                         trace := trace w @ [Send topic message, Sleep period]\<rparr>))))"

text \<open>One iteration of the loop of line 204.\<close>

definition tick ::
  "builtins \<Rightarrow> 'g library \<Rightarrow> string \<Rightarrow> model \<Rightarrow> real \<Rightarrow> pyval \<Rightarrow> anomaly list \<Rightarrow> real list \<Rightarrow>
   'g world \<Rightarrow> (error + real list) \<times> 'g world" where
  "tick B L topic model period name anomalies state w =
     (case perturb B anomalies state w of
        (Inl e, w') \<Rightarrow> (Inl e, w')
      | (Inr perturbed, w') \<Rightarrow> emit B L topic model period name state perturbed w')"

text \<open>
  The loop never ends by itself: \<open>run_loop n\<close> is its first \<open>n\<close> iterations, and
  returns the state they leave, or the error that ended them.
\<close>

fun run_loop ::
  "builtins \<Rightarrow> 'g library \<Rightarrow> string \<Rightarrow> model \<Rightarrow> real \<Rightarrow> pyval \<Rightarrow> anomaly list \<Rightarrow> nat \<Rightarrow>
   real list \<Rightarrow> 'g world \<Rightarrow> (error + real list) \<times> 'g world" where
  "run_loop B L topic model period name anomalies 0 state w = (Inr state, w)"
| "run_loop B L topic model period name anomalies (Suc n) state w =
     (case tick B L topic model period name anomalies state w of
        (Inl e, w') \<Rightarrow> (Inl e, w')
      | (Inr state', w') \<Rightarrow> run_loop B L topic model period name anomalies n state' w')"

section \<open>The program\<close>

record args =
  arg_brokers :: string
  arg_topic :: string
  arg_conf :: "string option"

text \<open>Lines 189 to 198 of \<^verbatim>\<open>main\<close>: \<^verbatim>\<open>None\<close> and the empty string are false.\<close>

definition main_setup ::
  "builtins \<Rightarrow> 'g library \<Rightarrow> args \<Rightarrow> 'g world \<Rightarrow>
   (error + (model \<times> real list \<times> real \<times> pyval \<times> anomaly list)) \<times> 'g world" where
  "main_setup B L a w =
     (case arg_conf a of
        Some (c # cs) \<Rightarrow>
          (case read_conf L (c # cs) of
             Inl e \<Rightarrow> (Inl e, w)
           | Inr d \<Rightarrow> parse_configuration B L d w)
      | _ \<Rightarrow>
          (Inr (NormalDLM (locally_constant 1.0) (PFloat 1.4), [0], 2.0, PStr ''data'',
                [Identity]), w))"

text \<open>
  \<^verbatim>\<open>main\<close>, stopped after \<open>n\<close> iterations of its loop. Logging and the creation of
  the producer leave no event in the trace.
\<close>

definition main :: "builtins \<Rightarrow> 'g library \<Rightarrow> args \<Rightarrow> nat \<Rightarrow> 'g world \<Rightarrow> (error + real list) \<times> 'g world" where
  "main B L a n w =
     (case main_setup B L a w of
        (Inl e, w') \<Rightarrow> (Inl e, w')
      | (Inr (model, state, period, name, anomalies), w') \<Rightarrow>
          run_loop B L (arg_topic a) model period name anomalies n state w')"

section \<open>What the specification documents\<close>

text \<open>
  The latent dimension of a component as the specification words it (section 4.1): 1 for
  \<^verbatim>\<open>mean\<close>, twice the number of harmonics for \<^verbatim>\<open>season\<close> (3 harmonics when absent),
  the number of coefficients for \<^verbatim>\<open>arma\<close> (one coefficient when absent).
\<close>

definition documented_dimension :: "pyval \<Rightarrow> nat option" where
  "documented_dimension conf =
     (case getitem conf ''type'' of
        Inl e \<Rightarrow> None
      | Inr type \<Rightarrow>
          if type = PStr ''mean'' then Some 1
          else if type = PStr ''season'' then
            (case getitem conf ''harmonics'' of
               Inl e \<Rightarrow> Some (2 * 3)
             | Inr h \<Rightarrow> (case py_index h of None \<Rightarrow> None | Some k \<Rightarrow> Some (2 * nat k)))
          else if type = PStr ''arma'' then
            (case getitem conf ''coefficients'' of
               Inl e \<Rightarrow> Some 1
             | Inr (PStr cs) \<Rightarrow> Some (length (split CHR '','' cs))
             | Inr _ \<Rightarrow> None)
          else None)"

text \<open>
  A valid component specification, after sections 3 and 4.1 of the specification: a
  dictionary with a type among \<^verbatim>\<open>mean\<close>, \<^verbatim>\<open>season\<close> and \<^verbatim>\<open>arma\<close>, a numeric noise
  and a start; for a season a numeric period and, when given, an integer number of
  harmonics; for an autoregressive component, when given, a string of comma-separated
  floats; and, when given, an \<^verbatim>\<open>anomalies\<close> block with both of its fields. A period
  of 0 and a season of no harmonic are left out, since the external constructor of the
  seasonal structure is not known to accept them.
\<close>

definition valid_component :: "builtins \<Rightarrow> pyval \<Rightarrow> bool" where
  "valid_component B conf =
     (case conf of
        PDict kvs \<Rightarrow>
          (case map_of kvs ''noise'' of
             None \<Rightarrow> False
           | Some nv \<Rightarrow> (case py_float B nv of Inl e \<Rightarrow> False | Inr f \<Rightarrow> True)) \<and>
          map_of kvs ''start'' \<noteq> None \<and>
          (case map_of kvs ''anomalies'' of
             None \<Rightarrow> True
           | Some ac \<Rightarrow>
               contains ''probability'' ac = Inr True \<and> contains ''scale'' ac = Inr True) \<and>
          (case map_of kvs ''type'' of
             None \<Rightarrow> False
           | Some type \<Rightarrow>
               if type = PStr ''mean'' then True
               else if type = PStr ''season'' then
                 (case map_of kvs ''harmonics'' of
                    None \<Rightarrow> True
                  | Some h \<Rightarrow> (case h of PInt k \<Rightarrow> 1 \<le> k | _ \<Rightarrow> False)) \<and>
                 (case map_of kvs ''period'' of
                    None \<Rightarrow> False
                  | Some pv \<Rightarrow> (case py_int B pv of Inl e \<Rightarrow> False | Inr p \<Rightarrow> p \<noteq> 0))
               else if type = PStr ''arma'' then
                 (case map_of kvs ''coefficients'' of
                    None \<Rightarrow> True
                  | Some c \<Rightarrow>
                      (case c of
                         PStr cs \<Rightarrow>
                           (case mapM (\<lambda>p. py_float B (PStr p)) (split CHR '','' cs) of
                              Inl e \<Rightarrow> False
                            | Inr betas \<Rightarrow> True)
                       | _ \<Rightarrow> False))
               else False)
      | _ \<Rightarrow> False)"

text \<open>
  The perturbation as the specification words it (section 4.6, step 1): for each latent
  dimension \<open>i\<close>, in order, \<open>perturbed[i] = anomaly_i(state[i])\<close>; a dimension with no
  anomaly function is an \<^verbatim>\<open>IndexError\<close>.
\<close>

fun apply_anomalies ::
  "builtins \<Rightarrow> anomaly list \<Rightarrow> real list \<Rightarrow> 'g world \<Rightarrow> (error + real list) \<times> 'g world" where
  "apply_anomalies B anomalies [] w = (Inr [], w)"
| "apply_anomalies B [] (x # xs) w = (Inl IndexError, w)"
| "apply_anomalies B (a # anomalies) (x # xs) w =
     (case call_anomaly B (*) a x w of
        (Inl e, w') \<Rightarrow> (Inl e, w')
      | (Inr v, w') \<Rightarrow>
          (case apply_anomalies B anomalies xs w' of
             (Inl e, w'') \<Rightarrow> (Inl e, w'')
           | (Inr vs, w'') \<Rightarrow> (Inr (v # vs), w'')))"

text \<open>The block-diagonal union of a list of matrices, in the order of the list.\<close>

definition block_diag_list :: "matrix list \<Rightarrow> matrix" where
  "block_diag_list Ms = foldr block_diag Ms []"

text \<open>How many times a trace samples the prior, and the messages it sends.\<close>

fun samplings :: "event list \<Rightarrow> nat" where
  "samplings [] = 0"
| "samplings (Rvs m0 C0 # es) = Suc (samplings es)"
| "samplings (e # es) = samplings es"

fun sent :: "event list \<Rightarrow> string list" where
  "sent [] = []"
| "sent (Send t m # es) = m # sent es"
| "sent (e # es) = sent es"

section \<open>Example inputs\<close>

text \<open>
  Concrete builtins, collaborators and configurations, on which the theorems below are
  instantiated. The example parser of floats knows two literals, and the example
  serialiser a dictionary of two strings.
\<close>

definition quoted :: "string \<Rightarrow> string" where
  "quoted s = CHR 0x22 # s @ [CHR 0x22]"

definition example_builtins :: builtins where
  "example_builtins =
     \<lparr>float_str = (\<lambda>s. if s = ''0.5'' then Some (1 / 2)
                       else if s = ''0.25'' then Some (1 / 4) else None),
      int_str = (\<lambda>s. None),
      json_dumps = (\<lambda>v. case v of
                          PDict [(k1, PStr n), (k2, PStr l)] \<Rightarrow>
                            Inr (''{'' @ quoted k1 @ '': '' @ quoted n @ '', '' @
                                 quoted k2 @ '': '' @ quoted l @ ''}'')
                        | _ \<Rightarrow> Inl TypeError)\<rparr>"

text \<open>The message the example serialiser gives for the series \<^verbatim>\<open>data\<close> and a label.\<close>

definition example_message :: "string \<Rightarrow> string" where
  "example_message l =
     ''{'' @ quoted ''name'' @ '': '' @ quoted ''data'' @ '', '' @
     quoted ''value'' @ '': '' @ quoted l @ ''}''"

definition example_mean :: pyval where
  "example_mean =
     PDict [(''type'', PStr ''mean''), (''noise'', PFloat 1), (''start'', PInt 0)]"

definition example_season :: pyval where
  "example_season =
     PDict [(''type'', PStr ''season''), (''noise'', PFloat (1 / 10)), (''start'', PInt 1),
            (''period'', PInt 12), (''harmonics'', PInt 2)]"

definition example_arma :: pyval where
  "example_arma =
     PDict [(''type'', PStr ''arma''), (''noise'', PFloat 1), (''start'', PInt 0),
            (''coefficients'', PStr ''0.5,0.25'')]"

definition example_anomalous :: pyval where
  "example_anomalous =
     PDict [(''type'', PStr ''mean''), (''noise'', PFloat 1), (''start'', PInt 0),
            (''anomalies'', PDict [(''probability'', PFloat (1 / 2)), (''scale'', PInt 10)])]"

definition example_partial :: pyval where
  "example_partial =
     PDict [(''type'', PStr ''mean''), (''noise'', PFloat 1), (''start'', PInt 0),
            (''anomalies'', PDict [(''probability'', PFloat (1 / 2))])]"

definition example_conf :: pyval where
  "example_conf =
     PDict [(''structure'', PList [example_mean, example_season]),
            (''observations'', PDict [(''type'', PStr ''categorical''),
                                      (''values'', PStr ''low,high'')]),
            (''period'', PFloat 2), (''name'', PStr ''data'')]"

text \<open>
  Example collaborators: the generator state counts the calls, the sampler returns the
  integer entries of the mean, a model advances every entry by one and reports whether
  the entries it is shown sum to more than 5.
\<close>

definition example_library :: "nat library" where
  "example_library =
     \<lparr>open_file = (\<lambda>f. if f = ''conf.yml'' then Inr ''text''
                       else Inl (ExternalError ''No such file'')),
      yaml_load = (\<lambda>s. Inr example_conf),
      is_yaml_error = (\<lambda>e. False),
      mvn_rvs = (\<lambda>m0 C0 g.
         Inr (map (\<lambda>e. case e of Elem (PInt n) \<Rightarrow> of_int n | _ \<Rightarrow> 0) m0, Suc g)),
      model_observation = (\<lambda>m st g.
         Inr (PStr (if 5 < sum_list st then ''high'' else ''low''), Suc g)),
      model_state = (\<lambda>m st g. Inr (map (\<lambda>x. x + 1) st, Suc g))\<rparr>"

definition example_world :: "nat world" where
  "example_world =
     \<lparr>randoms = (\<lambda>n. if even n then 1 / 4 else 3 / 4), drawn = 0, np_rng = 0, trace = []\<rparr>"

definition example_replicated :: pyval where
  "example_replicated =
     PDict [(''replicate'', PInt 2), (''structure'', PList [example_mean, example_mean]),
            (''observations'', PDict [(''type'', PStr ''discrete'')])]"

definition example_unknown :: pyval where
  "example_unknown =
     PDict [(''type'', PStr ''trend''), (''noise'', PFloat 1), (''start'', PInt 0)]"

definition example_bad_conf :: pyval where
  "example_bad_conf =
     PDict [(''structure'', PList [example_mean, example_unknown]),
            (''observations'', PDict [(''type'', PStr ''discrete'')]),
            (''period'', PFloat 2), (''name'', PStr ''data'')]"

definition example_args :: args where
  "example_args =
     \<lparr>arg_brokers = ''localhost:9092'', arg_topic = ''data'', arg_conf = Some ''conf.yml''\<rparr>"

definition example_certain :: pyval where
  "example_certain = PDict [(''probability'', PInt 1), (''scale'', PInt 10)]"

definition example_season_default :: pyval where
  "example_season_default =
     PDict [(''type'', PStr ''season''), (''noise'', PFloat (1 / 10)), (''start'', PInt 1),
            (''period'', PInt 12)]"

definition example_arma_default :: pyval where
  "example_arma_default =
     PDict [(''type'', PStr ''arma''), (''noise'', PFloat 1), (''start'', PInt 0)]"

definition example_season_anomalous :: pyval where
  "example_season_anomalous =
     PDict [(''type'', PStr ''season''), (''noise'', PFloat (1 / 10)), (''start'', PInt 1),
            (''period'', PInt 12), (''harmonics'', PInt 2),
            (''anomalies'', PDict [(''probability'', PFloat (1 / 2)), (''scale'', PInt 10)])]"

definition example_bad_compose :: pyval where
  "example_bad_compose =
     PDict [(''compose'',
             PList [PDict [(''structure'', PList [example_mean]),
                           (''observations'', PDict [(''type'', PStr ''discrete'')])],
                    PDict [(''replicate'', PInt 2),
                           (''structure'', PList [example_mean, example_unknown]),
                           (''observations'', PDict [(''type'', PStr ''discrete'')])]]),
            (''period'', PFloat 2), (''name'', PStr ''data'')]"

definition example_bad_observation :: pyval where
  "example_bad_observation =
     PDict [(''compose'',
             PList [PDict [(''replicate'', PInt 2),
                           (''structure'', PList [example_mean]),
                           (''observations'', PDict [(''type'', PStr ''categorical'')])]]),
            (''period'', PFloat 2), (''name'', PStr ''data'')]"

section \<open>Basic facts\<close>

lemma err_bind_Inl [simp]: "err_bind (Inl e) f = Inl e"
  by (simp add: err_bind_def)

lemma err_bind_Inr [simp]: "err_bind (Inr x) f = f x"
  by (simp add: err_bind_def)

lemma err_bind_eq_Inr: "(err_bind m f = Inr y) = (\<exists>x. m = Inr x \<and> f x = Inr y)"
  by (cases m) simp_all

lemma length_np_identity [simp]: "length (np_identity n) = n"
  by (simp add: np_identity_def)

lemma is_square_np_identity: "is_square n (np_identity n)"
  by (simp add: is_square_def np_identity_def list_all_iff)

lemma is_square_scale_matrix: "is_square n M \<Longrightarrow> is_square n (scale_matrix M c)"
  by (simp add: is_square_def scale_matrix_def list_all_iff)

lemma is_square_arma: "is_square p (structure_W (arma p betas w))"
  by (simp add: is_square_def list_all_iff)

lemma is_square_locally_constant: "is_square 1 (structure_W (locally_constant w))"
  by (simp add: is_square_def)

lemma mapM_length: "mapM f xs = Inr ys \<Longrightarrow> length ys = length xs"
  by (induction xs arbitrary: ys) (auto simp: err_bind_eq_Inr)

section \<open>The dimension of a component\<close>

lemma getitem_Inr_dict: "getitem conf k = Inr v \<Longrightarrow> \<exists>kvs. conf = PDict kvs \<and> map_of kvs k = Some v"
  by (cases conf) (auto split: option.splits)

lemma twice_index: "py_index (twice v) = Some k \<Longrightarrow> \<exists>j. py_index v = Some j \<and> k = 2 * j"
  by (cases v) (auto split: if_splits)

lemma np_identity_py_Inr:
  "np_identity_py v = Inr I \<Longrightarrow> \<exists>k. py_index v = Some k \<and> 0 \<le> k \<and> I = np_identity (nat k)"
  by (auto simp: np_identity_py_def split: option.splits if_splits)

lemma py_split_Inr: "py_split v = Inr ps \<Longrightarrow> \<exists>s. v = PStr s \<and> ps = split CHR '','' s"
  by (cases v) auto

lemma structure_mean:
  assumes "component_structure B conf = Inr (s, m0)" and "getitem conf ''type'' = Inr (PStr ''mean'')"
  shows "\<exists>w start. s = locally_constant w \<and> getitem conf ''start'' = Inr start \<and> m0 = [start]"
  using assms by (auto simp: component_structure_def err_bind_eq_Inr)

lemma structure_season:
  assumes "component_structure B conf = Inr (s, m0)" and "getitem conf ''type'' = Inr (PStr ''season'')"
  shows "\<exists>period nh f start k. s = cyclic_fourier period nh (scale_matrix (np_identity (2 * nat k)) f) \<and>
           getitem conf ''start'' = Inr start \<and> m0 = replicate (2 * nat k) start \<and>
           py_index nh = Some k \<and> 0 \<le> k \<and>
           (case getitem conf ''harmonics'' of Inl e \<Rightarrow> nh = PInt 3 | Inr h \<Rightarrow> nh = h)"
proof -
  from assms(2) obtain kvs where conf: "conf = PDict kvs"
    by (auto dest: getitem_Inr_dict)
  from assms obtain nh I nv f start pv period where
    nh: "(if map_of kvs ''harmonics'' \<noteq> None then getitem conf ''harmonics'' else Inr (PInt 3)) = Inr nh"
    and I: "np_identity_py (twice nh) = Inr I"
    and f: "getitem conf ''noise'' = Inr nv" "py_float B nv = Inr f"
    and start: "getitem conf ''start'' = Inr start"
    and s: "s = cyclic_fourier period nh (scale_matrix I f)"
    and m0: "m0 = replicate (shape0 (scale_matrix I f)) start"
    unfolding component_structure_def conf
    by (auto simp: err_bind_eq_Inr)
  from I obtain k2 where k2: "py_index (twice nh) = Some k2" "0 \<le> k2" "I = np_identity (nat k2)"
    by (auto dest: np_identity_py_Inr)
  then obtain k where k: "py_index nh = Some k" "k2 = 2 * k"
    by (auto dest: twice_index)
  have n: "nat k2 = 2 * nat k" using k k2 by simp
  have "case getitem conf ''harmonics'' of Inl e \<Rightarrow> nh = PInt 3 | Inr h \<Rightarrow> nh = h"
    using nh by (auto simp: conf split: option.splits if_splits)
  with s m0 start k k2 n show ?thesis
    by (auto simp: shape0_def scale_matrix_def)
qed

lemma structure_arma:
  assumes "component_structure B conf = Inr (s, m0)" and "getitem conf ''type'' = Inr (PStr ''arma'')"
  shows "\<exists>betas noise start. s = arma (length betas) betas noise \<and>
           getitem conf ''start'' = Inr start \<and> m0 = replicate (length betas) start \<and>
           (case getitem conf ''coefficients'' of
              Inl e \<Rightarrow> betas = [1]
            | Inr c \<Rightarrow> \<exists>cs. c = PStr cs \<and> length betas = length (split CHR '','' cs))"
proof -
  from assms(2) obtain kvs where conf: "conf = PDict kvs"
    by (auto dest: getitem_Inr_dict)
  from assms obtain betas nv noise start where
    betas: "(if map_of kvs ''coefficients'' \<noteq> None then
               err_bind (getitem conf ''coefficients'') (\<lambda>cs.
               err_bind (py_split cs) (\<lambda>ps. mapM (\<lambda>p. py_float B (PStr p)) ps))
             else Inr [1]) = Inr betas"
    and start: "getitem conf ''start'' = Inr start"
    and s: "s = arma (length betas) betas noise"
    and m0: "m0 = replicate (length betas) start"
    unfolding component_structure_def conf
    by (auto simp: err_bind_eq_Inr)
  have "case getitem conf ''coefficients'' of
              Inl e \<Rightarrow> betas = [1]
            | Inr c \<Rightarrow> \<exists>cs. c = PStr cs \<and> length betas = length (split CHR '','' cs)"
    using betas
    by (auto simp: conf err_bind_eq_Inr split: option.splits if_splits
        dest!: py_split_Inr mapM_length)
  with s m0 start show ?thesis by blast
qed

lemma component_structure_dimension:
  assumes "component_structure B conf = Inr (s, m0)"
  shows "\<exists>d start. documented_dimension conf = Some d \<and> is_square d (structure_W s) \<and>
           getitem conf ''start'' = Inr start \<and> m0 = replicate d start"
proof -
  from assms obtain type where ty: "getitem conf ''type'' = Inr type"
    by (auto simp: component_structure_def err_bind_eq_Inr)
  consider (mean) "type = PStr ''mean''" | (season) "type = PStr ''season''"
    | (arma) "type = PStr ''arma''"
    | (other) "type \<noteq> PStr ''mean''" "type \<noteq> PStr ''season''" "type \<noteq> PStr ''arma''"
    by blast
  then show ?thesis
  proof cases
    case mean
    with structure_mean[OF assms] ty show ?thesis
      by (auto simp: documented_dimension_def is_square_def)
  next
    case season
    with structure_season[OF assms] ty show ?thesis
      by (auto simp: documented_dimension_def is_square_scale_matrix is_square_np_identity
          split: sum.splits)
  next
    case arma
    with structure_arma[OF assms] ty show ?thesis
      by (auto simp: documented_dimension_def is_square_arma simp del: structure_W.simps
          split: sum.splits)
  next
    case other
    with assms ty show ?thesis
      by (auto simp: component_structure_def)
  qed
qed


lemma component_anomalies_cases:
  assumes "component_anomalies conf s = Inr anomalies"
  shows "(contains ''anomalies'' conf = Inr False \<and>
            anomalies = replicate (shape0 (structure_W s)) Identity) \<or>
         (\<exists>ac. contains ''anomalies'' conf = Inr True \<and> getitem conf ''anomalies'' = Inr ac \<and>
            contains ''probability'' ac = Inr True \<and> contains ''scale'' ac = Inr True \<and>
            anomalies = replicate (shape0 (structure_W s)) (Bernoulli ac))"
  using assms
  by (auto simp: component_anomalies_def err_bind_eq_Inr split: if_splits)

lemma component_anomalies_length:
  "component_anomalies conf s = Inr anomalies \<Longrightarrow> length anomalies = shape0 (structure_W s)"
  by (auto dest: component_anomalies_cases)

lemma parse_component_Inr:
  "(parse_component B conf = Inr (s, anomalies, m0)) =
   (component_structure B conf = Inr (s, m0) \<and> component_anomalies conf s = Inr anomalies)"
  by (auto simp: parse_component_def err_bind_eq_Inr)

lemma structure_mean_builds:
  assumes "getitem conf ''type'' = Inr (PStr ''mean'')"
    and "getitem conf ''noise'' = Inr nv" and "py_float B nv = Inr f"
    and "getitem conf ''start'' = Inr start"
  shows "component_structure B conf = Inr (locally_constant f, [start])"
  using assms by (simp add: component_structure_def)

lemma structure_season_builds:
  assumes "getitem conf ''type'' = Inr (PStr ''season'')"
    and "getitem conf ''harmonics'' = Inr (PInt h)" and "0 \<le> h"
    and "getitem conf ''noise'' = Inr nv" and "py_float B nv = Inr f"
    and "getitem conf ''start'' = Inr start"
    and "getitem conf ''period'' = Inr pv" and "py_int B pv = Inr period"
  shows "component_structure B conf =
     Inr (cyclic_fourier period (PInt h) (scale_matrix (np_identity (2 * nat h)) f),
          replicate (2 * nat h) start)"
proof -
  from assms(2) obtain kvs where "conf = PDict kvs" "map_of kvs ''harmonics'' = Some (PInt h)"
    by (auto dest: getitem_Inr_dict)
  moreover have "nat (2 * h) = 2 * nat h" using assms(3) by simp
  ultimately show ?thesis
    using assms
    by (simp add: component_structure_def shape0_def np_identity_py_def scale_matrix_def)
qed

lemma structure_season_default:
  assumes "getitem conf ''type'' = Inr (PStr ''season'')"
    and "contains ''harmonics'' conf = Inr False"
    and "getitem conf ''noise'' = Inr nv" and "py_float B nv = Inr f"
    and "getitem conf ''start'' = Inr start"
    and "getitem conf ''period'' = Inr pv" and "py_int B pv = Inr period"
  shows "component_structure B conf =
     Inr (cyclic_fourier period (PInt 3) (scale_matrix (np_identity 6) f), replicate 6 start)"
  using assms
  by (simp add: component_structure_def shape0_def np_identity_py_def scale_matrix_def)

lemma structure_arma_builds:
  assumes "getitem conf ''type'' = Inr (PStr ''arma'')"
    and "getitem conf ''coefficients'' = Inr (PStr cs)"
    and "mapM (\<lambda>p. py_float B (PStr p)) (split CHR '','' cs) = Inr betas"
    and "getitem conf ''noise'' = Inr nv" and "py_float B nv = Inr f"
    and "getitem conf ''start'' = Inr start"
  shows "component_structure B conf =
     Inr (arma (length betas) betas f, replicate (length betas) start)"
proof -
  from assms(2) obtain kvs where "conf = PDict kvs" "map_of kvs ''coefficients'' = Some (PStr cs)"
    by (auto dest: getitem_Inr_dict)
  then show ?thesis
    using assms by (simp add: component_structure_def)
qed

lemma structure_arma_default:
  assumes "getitem conf ''type'' = Inr (PStr ''arma'')"
    and "contains ''coefficients'' conf = Inr False"
    and "getitem conf ''noise'' = Inr nv" and "py_float B nv = Inr f"
    and "getitem conf ''start'' = Inr start"
  shows "component_structure B conf = Inr (arma 1 [1] f, [start])"
  using assms by (simp add: component_structure_def)

lemma anomalies_identity_builds:
  assumes "contains ''anomalies'' conf = Inr False"
  shows "component_anomalies conf s = Inr (replicate (shape0 (structure_W s)) Identity)"
  using assms by (simp add: component_anomalies_def)

lemma anomalies_bernoulli_builds:
  assumes "getitem conf ''anomalies'' = Inr ac"
    and "contains ''probability'' ac = Inr True" and "contains ''scale'' ac = Inr True"
  shows "component_anomalies conf s = Inr (replicate (shape0 (structure_W s)) (Bernoulli ac))"
proof -
  from assms(1) obtain kvs where "conf = PDict kvs" "map_of kvs ''anomalies'' = Some ac"
    by (auto dest: getitem_Inr_dict)
  with assms show ?thesis by (simp add: component_anomalies_def)
qed

lemma valid_component_structure:
  assumes "valid_component B conf"
  shows "\<exists>s m0. component_structure B conf = Inr (s, m0)"
proof -
  from assms obtain kvs where conf: "conf = PDict kvs"
    by (cases conf) (simp_all add: valid_component_def)
  from assms conf obtain nv f start type where
    nv: "getitem conf ''noise'' = Inr nv" "py_float B nv = Inr f"
    and start: "getitem conf ''start'' = Inr start"
    and type: "getitem conf ''type'' = Inr type"
    by (auto simp: valid_component_def split: option.splits sum.splits)
  consider (mean) "type = PStr ''mean''" | (season) "type = PStr ''season''"
    | (arma) "type = PStr ''arma''"
    using assms conf type by (auto simp: valid_component_def split: option.splits if_splits)
  then show ?thesis
  proof cases
    case mean
    with structure_mean_builds[OF _ nv start] type show ?thesis by blast
  next
    case season
    from assms conf type season obtain pv period where
      p: "getitem conf ''period'' = Inr pv" "py_int B pv = Inr period"
      by (auto simp: valid_component_def split: option.splits sum.splits)
    show ?thesis
    proof (cases "map_of kvs ''harmonics''")
      case None
      then have "contains ''harmonics'' conf = Inr False" by (simp add: conf)
      from structure_season_default[OF _ this nv start p] type season show ?thesis by blast
    next
      case (Some h)
      with assms conf type season obtain k where "h = PInt k" "1 \<le> k"
        by (auto simp: valid_component_def split: option.splits pyval.splits)
      with Some have "getitem conf ''harmonics'' = Inr (PInt k)" "0 \<le> k"
        by (simp_all add: conf)
      from structure_season_builds[OF _ this nv start p] type season show ?thesis by blast
    qed
  next
    case arma
    show ?thesis
    proof (cases "map_of kvs ''coefficients''")
      case None
      then have "contains ''coefficients'' conf = Inr False" by (simp add: conf)
      from structure_arma_default[OF _ this nv start] type arma show ?thesis by blast
    next
      case (Some c)
      with assms conf type arma obtain cs betas where "c = PStr cs"
        "mapM (\<lambda>p. py_float B (PStr p)) (split CHR '','' cs) = Inr betas"
        by (auto simp: valid_component_def split: option.splits pyval.splits sum.splits)
      with Some have "getitem conf ''coefficients'' = Inr (PStr cs)"
        "mapM (\<lambda>p. py_float B (PStr p)) (split CHR '','' cs) = Inr betas"
        by (simp_all add: conf)
      from structure_arma_builds[OF _ this nv start] type arma show ?thesis by blast
    qed
  qed
qed

lemma valid_component_anomalies:
  assumes "valid_component B conf"
  shows "\<exists>anomalies. component_anomalies conf s = Inr anomalies"
proof -
  from assms obtain kvs where conf: "conf = PDict kvs"
    by (cases conf) (simp_all add: valid_component_def)
  show ?thesis
  proof (cases "map_of kvs ''anomalies''")
    case None
    then have "contains ''anomalies'' conf = Inr False" by (simp add: conf)
    from anomalies_identity_builds[OF this] show ?thesis by blast
  next
    case (Some ac)
    with assms conf have "getitem conf ''anomalies'' = Inr ac"
      "contains ''probability'' ac = Inr True" "contains ''scale'' ac = Inr True"
      by (simp_all add: valid_component_def)
    from anomalies_bernoulli_builds[OF this] show ?thesis by blast
  qed
qed

lemma valid_component_builds:
  assumes "valid_component B conf"
  shows "\<exists>s anomalies m0. parse_component B conf = Inr (s, anomalies, m0)"
proof -
  from valid_component_structure[OF assms] obtain s m0 where
    "component_structure B conf = Inr (s, m0)" by blast
  moreover from valid_component_anomalies[OF assms] obtain an where
    "component_anomalies conf s = Inr an" by blast
  ultimately show ?thesis by (auto simp: parse_component_Inr)
qed

text \<open>
  C4. Every valid component specification builds, and whenever a component specification
  builds, its block has the dimension the specification documents: 1 for \<^verbatim>\<open>mean\<close>,
  twice the harmonics for \<^verbatim>\<open>season\<close> (6 with the default of 3 harmonics), the number
  of coefficients for \<^verbatim>\<open>arma\<close> (1 with the default coefficient 1.0); its noise
  covariance is square of that side and its prior mean is the start repeated that many
  times.
\<close>

theorem parse_component_dimension:
  "(valid_component B conf \<longrightarrow>
      (\<exists>s anomalies m0. parse_component B conf = Inr (s, anomalies, m0))) \<and>
   (\<forall>s anomalies m0. parse_component B conf = Inr (s, anomalies, m0) \<longrightarrow>
      (\<exists>d start. documented_dimension conf = Some d \<and>
         is_square d (structure_W s) \<and> shape0 (structure_W s) = d \<and>
         getitem conf ''start'' = Inr start \<and> m0 = replicate d start \<and>
         (getitem conf ''type'' = Inr (PStr ''season'') \<and>
          contains ''harmonics'' conf = Inr False \<longrightarrow>
            d = 6 \<and> (\<exists>period M. s = cyclic_fourier period (PInt 3) M)) \<and>
         (getitem conf ''type'' = Inr (PStr ''arma'') \<and>
          contains ''coefficients'' conf = Inr False \<longrightarrow>
            d = 1 \<and> (\<exists>noise. s = arma 1 [1] noise))))"
proof (intro conjI allI impI)
  assume "valid_component B conf"
  then show "\<exists>s anomalies m0. parse_component B conf = Inr (s, anomalies, m0)"
    by (rule valid_component_builds)
next
  fix s anomalies m0
  assume build: "parse_component B conf = Inr (s, anomalies, m0)"
  then have cs: "component_structure B conf = Inr (s, m0)"
    by (simp add: parse_component_Inr)
  from component_structure_dimension[OF cs] obtain d start where
    d: "documented_dimension conf = Some d" "is_square d (structure_W s)"
       "getitem conf ''start'' = Inr start" "m0 = replicate d start"
    by blast
  have season: "getitem conf ''type'' = Inr (PStr ''season'') \<and>
        contains ''harmonics'' conf = Inr False \<longrightarrow>
        d = 6 \<and> (\<exists>period M. s = cyclic_fourier period (PInt 3) M)"
  proof
    assume a: "getitem conf ''type'' = Inr (PStr ''season'') \<and>
        contains ''harmonics'' conf = Inr False"
    then obtain kvs where "conf = PDict kvs" by (auto dest: getitem_Inr_dict)
    with a d(1) structure_season[OF cs] show "d = 6 \<and> (\<exists>period M. s = cyclic_fourier period (PInt 3) M)"
      by (auto simp: documented_dimension_def split: option.splits)
  qed
  have arma: "getitem conf ''type'' = Inr (PStr ''arma'') \<and>
        contains ''coefficients'' conf = Inr False \<longrightarrow>
        d = 1 \<and> (\<exists>noise. s = arma 1 [1] noise)"
  proof
    assume a: "getitem conf ''type'' = Inr (PStr ''arma'') \<and>
        contains ''coefficients'' conf = Inr False"
    then obtain kvs where "conf = PDict kvs" by (auto dest: getitem_Inr_dict)
    with a d(1) structure_arma[OF cs] show "d = 1 \<and> (\<exists>noise. s = arma 1 [1] noise)"
      by (auto simp: documented_dimension_def split: option.splits)
  qed
  from d season arma
  show "\<exists>d start. documented_dimension conf = Some d \<and>
         is_square d (structure_W s) \<and> shape0 (structure_W s) = d \<and>
         getitem conf ''start'' = Inr start \<and> m0 = replicate d start \<and>
         (getitem conf ''type'' = Inr (PStr ''season'') \<and>
          contains ''harmonics'' conf = Inr False \<longrightarrow>
            d = 6 \<and> (\<exists>period M. s = cyclic_fourier period (PInt 3) M)) \<and>
         (getitem conf ''type'' = Inr (PStr ''arma'') \<and>
          contains ''coefficients'' conf = Inr False \<longrightarrow>
            d = 1 \<and> (\<exists>noise. s = arma 1 [1] noise))"
    by (intro exI[of _ d] exI[of _ start]) (simp add: is_square_def shape0_def)
qed

lemma example_mean_builds:
  "parse_component example_builtins example_mean = Inr (locally_constant 1, [Identity], [PInt 0])"
  by (simp add: parse_component_def component_structure_def component_anomalies_def
      example_builtins_def example_mean_def shape0_def)

lemma example_season_builds:
  "parse_component example_builtins example_season =
     Inr (cyclic_fourier 12 (PInt 2) (scale_matrix (np_identity 4) (1 / 10)),
          replicate 4 Identity, replicate 4 (PInt 1))"
  by (simp add: parse_component_def component_structure_def component_anomalies_def
      example_builtins_def example_season_def np_identity_py_def shape0_def scale_matrix_def)

lemma example_season_default_builds:
  "parse_component example_builtins example_season_default =
     Inr (cyclic_fourier 12 (PInt 3) (scale_matrix (np_identity 6) (1 / 10)),
          replicate 6 Identity, replicate 6 (PInt 1))"
  by (simp add: parse_component_def component_structure_def component_anomalies_def
      example_builtins_def example_season_default_def np_identity_py_def shape0_def
      scale_matrix_def)

lemma example_arma_default_builds:
  "parse_component example_builtins example_arma_default =
     Inr (arma 1 [1] 1, [Identity], [PInt 0])"
  by (simp add: parse_component_def component_structure_def component_anomalies_def
      example_builtins_def example_arma_default_def shape0_def)

theorem parse_component_dimension_witness:
  "valid_component example_builtins example_season_default \<and>
   parse_component example_builtins example_season_default =
     Inr (cyclic_fourier 12 (PInt 3) (scale_matrix (np_identity 6) (1 / 10)),
          replicate 6 Identity, replicate 6 (PInt 1)) \<and>
   documented_dimension example_season_default = Some 6 \<and>
   valid_component example_builtins example_arma_default \<and>
   parse_component example_builtins example_arma_default =
     Inr (arma 1 [1] 1, [Identity], [PInt 0]) \<and>
   documented_dimension example_arma_default = Some 1 \<and>
   valid_component example_builtins example_season \<and>
   parse_component example_builtins example_season =
     Inr (cyclic_fourier 12 (PInt 2) (scale_matrix (np_identity 4) (1 / 10)),
          replicate 4 Identity, replicate 4 (PInt 1)) \<and>
   documented_dimension example_season = Some 4 \<and>
   valid_component example_builtins example_arma \<and>
   parse_component example_builtins example_arma =
     Inr (arma 2 [1 / 2, 1 / 4] 1, replicate 2 Identity, replicate 2 (PInt 0)) \<and>
   documented_dimension example_arma = Some 2"
proof -
  have v1: "valid_component example_builtins example_season_default"
    by (simp add: valid_component_def example_season_default_def example_builtins_def)
  have v2: "valid_component example_builtins example_arma_default"
    by (simp add: valid_component_def example_arma_default_def example_builtins_def)
  have v3: "valid_component example_builtins example_season"
    by (simp add: valid_component_def example_season_def example_builtins_def)
  have v4: "valid_component example_builtins example_arma"
    by (simp add: valid_component_def example_arma_def example_builtins_def)
  have arma: "parse_component example_builtins example_arma =
     Inr (arma 2 [1 / 2, 1 / 4] 1, replicate 2 Identity, replicate 2 (PInt 0))"
    by (simp add: parse_component_def component_structure_def component_anomalies_def
        example_builtins_def example_arma_def shape0_def numeral_2_eq_2)
  note T1 = parse_component_dimension[of example_builtins example_season_default,
      THEN conjunct2, rule_format, OF example_season_default_builds]
  note T2 = parse_component_dimension[of example_builtins example_arma_default,
      THEN conjunct2, rule_format, OF example_arma_default_builds]
  note T3 = parse_component_dimension[of example_builtins example_season,
      THEN conjunct2, rule_format, OF example_season_builds]
  note T4 = parse_component_dimension[of example_builtins example_arma,
      THEN conjunct2, rule_format, OF arma]
  from T1 have d1: "documented_dimension example_season_default = Some 6"
    by (auto simp: shape0_def scale_matrix_def)
  from T2 have d2: "documented_dimension example_arma_default = Some 1"
    by (auto simp: shape0_def)
  from T3 have d3: "documented_dimension example_season = Some 4"
    by (auto simp: shape0_def scale_matrix_def)
  from T4 have d4: "documented_dimension example_arma = Some 2"
    by (auto simp: shape0_def)
  from v1 v2 v3 v4 d1 d2 d3 d4 example_season_default_builds example_arma_default_builds
    example_season_builds arma
  show ?thesis by simp
qed

text \<open>Specifications that are valid do build.\<close>

lemma mean_builds:
  assumes "getitem conf ''type'' = Inr (PStr ''mean'')"
    and "getitem conf ''noise'' = Inr nv" and "py_float B nv = Inr f"
    and "getitem conf ''start'' = Inr start"
    and "contains ''anomalies'' conf = Inr False"
  shows "parse_component B conf = Inr (locally_constant f, [Identity], [start])"
  using assms
  by (simp add: parse_component_def component_structure_def component_anomalies_def shape0_def)

lemma season_builds:
  assumes "getitem conf ''type'' = Inr (PStr ''season'')"
    and "getitem conf ''harmonics'' = Inr (PInt h)" and "0 \<le> h"
    and "getitem conf ''noise'' = Inr nv" and "py_float B nv = Inr f"
    and "getitem conf ''start'' = Inr start"
    and "getitem conf ''period'' = Inr pv" and "py_int B pv = Inr period"
    and "contains ''anomalies'' conf = Inr False"
  shows "parse_component B conf =
     Inr (cyclic_fourier period (PInt h) (scale_matrix (np_identity (2 * nat h)) f),
          replicate (2 * nat h) Identity, replicate (2 * nat h) start)"
proof -
  from assms(2) obtain kvs where "conf = PDict kvs" "map_of kvs ''harmonics'' = Some (PInt h)"
    by (auto dest: getitem_Inr_dict)
  moreover have "nat (2 * h) = 2 * nat h" using assms(3) by simp
  ultimately show ?thesis
    using assms
    by (simp add: parse_component_def component_structure_def component_anomalies_def
        shape0_def np_identity_py_def scale_matrix_def)
qed

lemma arma_builds:
  assumes "getitem conf ''type'' = Inr (PStr ''arma'')"
    and "getitem conf ''coefficients'' = Inr (PStr cs)"
    and "mapM (\<lambda>p. py_float B (PStr p)) (split CHR '','' cs) = Inr betas"
    and "getitem conf ''noise'' = Inr nv" and "py_float B nv = Inr f"
    and "getitem conf ''start'' = Inr start"
    and "contains ''anomalies'' conf = Inr False"
  shows "parse_component B conf =
     Inr (arma (length betas) betas f, replicate (length betas) Identity,
          replicate (length betas) start)"
proof -
  from assms(2) obtain kvs where "conf = PDict kvs" "map_of kvs ''coefficients'' = Some (PStr cs)"
    by (auto dest: getitem_Inr_dict)
  then show ?thesis
    using assms
    by (simp add: parse_component_def component_structure_def component_anomalies_def
        shape0_def)
qed

section \<open>The anomaly factory\<close>

lemma call_identity: "call_anomaly B mul Identity x w = (Inr x, w)"
  by (simp add: call_anomaly_def)

lemma call_bernoulli_miss:
  assumes "getitem ac ''probability'' = Inr p" and "py_number p = Some r"
    and "\<not> randoms w (drawn w) < r"
  shows "call_anomaly B mul (Bernoulli ac) x w = (Inr x, w\<lparr>drawn := Suc (drawn w)\<rparr>)"
  using assms by (simp add: call_anomaly_def float_less_def)

lemma call_bernoulli_hit:
  assumes "getitem ac ''probability'' = Inr p" and "py_number p = Some r"
    and "randoms w (drawn w) < r"
    and "getitem ac ''scale'' = Inr sc" and "py_float B sc = Inr k"
  shows "call_anomaly B mul (Bernoulli ac) x w = (Inr (mul x k), w\<lparr>drawn := Suc (drawn w)\<rparr>)"
  using assms by (simp add: call_anomaly_def float_less_def)

text \<open>
  C5. For a component whose structure builds, an \<^verbatim>\<open>anomalies\<close> block with both
  fields gives one Bernoulli-gated function per latent dimension, and no block gives the
  identity for every dimension; a component that builds has nothing else. A call of a
  gated function consumes one random number of its own; with probability 0 it returns its
  argument, with probability 1 its argument times the scale. The random numbers lie in
  \<open>[0, 1)\<close>.
\<close>

theorem anomaly_factory:
  "(valid_component B conf \<longrightarrow> (\<exists>s m0. component_structure B conf = Inr (s, m0))) \<and>
   (\<forall>s m0. component_structure B conf = Inr (s, m0) \<longrightarrow>
      (\<exists>d. documented_dimension conf = Some d \<and> shape0 (structure_W s) = d) \<and>
      (contains ''anomalies'' conf = Inr False \<longrightarrow>
         parse_component B conf =
           Inr (s, replicate (shape0 (structure_W s)) Identity, m0)) \<and>
      (\<forall>ac. getitem conf ''anomalies'' = Inr ac \<and> contains ''probability'' ac = Inr True \<and>
         contains ''scale'' ac = Inr True \<longrightarrow>
         parse_component B conf =
           Inr (s, replicate (shape0 (structure_W s)) (Bernoulli ac), m0))) \<and>
   (\<forall>s anomalies m0. parse_component B conf = Inr (s, anomalies, m0) \<longrightarrow>
      (contains ''anomalies'' conf = Inr False \<longrightarrow>
         anomalies = replicate (shape0 (structure_W s)) Identity) \<and>
      (\<forall>ac. getitem conf ''anomalies'' = Inr ac \<longrightarrow>
         contains ''probability'' ac = Inr True \<and> contains ''scale'' ac = Inr True \<and>
         anomalies = replicate (shape0 (structure_W s)) (Bernoulli ac))) \<and>
   (\<forall>x w. call_anomaly B (*) Identity x w = (Inr x, w)) \<and>
   (\<forall>ac p x w. getitem ac ''probability'' = Inr p \<and> py_number p = Some 0 \<and>
      0 \<le> randoms w (drawn w) \<longrightarrow>
      call_anomaly B (*) (Bernoulli ac) x w = (Inr x, w\<lparr>drawn := Suc (drawn w)\<rparr>)) \<and>
   (\<forall>ac p sc k x w. getitem ac ''probability'' = Inr p \<and> py_number p = Some 1 \<and>
      randoms w (drawn w) < 1 \<and> getitem ac ''scale'' = Inr sc \<and> py_float B sc = Inr k \<longrightarrow>
      call_anomaly B (*) (Bernoulli ac) x w =
        (Inr (x * k), w\<lparr>drawn := Suc (drawn w)\<rparr>))"
proof -
  have valid: "valid_component B conf \<longrightarrow> (\<exists>s m0. component_structure B conf = Inr (s, m0))"
    by (auto dest: valid_component_structure)
  have forward: "(\<exists>d. documented_dimension conf = Some d \<and> shape0 (structure_W s) = d) \<and>
      (contains ''anomalies'' conf = Inr False \<longrightarrow>
         parse_component B conf =
           Inr (s, replicate (shape0 (structure_W s)) Identity, m0)) \<and>
      (\<forall>ac. getitem conf ''anomalies'' = Inr ac \<and> contains ''probability'' ac = Inr True \<and>
         contains ''scale'' ac = Inr True \<longrightarrow>
         parse_component B conf =
           Inr (s, replicate (shape0 (structure_W s)) (Bernoulli ac), m0))"
    if cs: "component_structure B conf = Inr (s, m0)" for s m0
  proof (intro conjI allI impI)
    from component_structure_dimension[OF cs]
    show "\<exists>d. documented_dimension conf = Some d \<and> shape0 (structure_W s) = d"
      by (auto simp: is_square_def shape0_def)
  next
    assume "contains ''anomalies'' conf = Inr False"
    from anomalies_identity_builds[OF this, of s] cs
    show "parse_component B conf = Inr (s, replicate (shape0 (structure_W s)) Identity, m0)"
      by (simp add: parse_component_Inr)
  next
    fix ac
    assume "getitem conf ''anomalies'' = Inr ac \<and> contains ''probability'' ac = Inr True \<and>
         contains ''scale'' ac = Inr True"
    then have "component_anomalies conf s =
        Inr (replicate (shape0 (structure_W s)) (Bernoulli ac))"
      by (auto intro: anomalies_bernoulli_builds)
    with cs
    show "parse_component B conf =
        Inr (s, replicate (shape0 (structure_W s)) (Bernoulli ac), m0)"
      by (simp add: parse_component_Inr)
  qed
  have backward: "(contains ''anomalies'' conf = Inr False \<longrightarrow>
         anomalies = replicate (shape0 (structure_W s)) Identity) \<and>
      (\<forall>ac. getitem conf ''anomalies'' = Inr ac \<longrightarrow>
         contains ''probability'' ac = Inr True \<and> contains ''scale'' ac = Inr True \<and>
         anomalies = replicate (shape0 (structure_W s)) (Bernoulli ac))"
    if build: "parse_component B conf = Inr (s, anomalies, m0)" for s anomalies m0
  proof (intro conjI allI impI)
    from build have ca: "component_anomalies conf s = Inr anomalies"
      by (simp add: parse_component_Inr)
    {
      assume "contains ''anomalies'' conf = Inr False"
      with component_anomalies_cases[OF ca]
      show "anomalies = replicate (shape0 (structure_W s)) Identity" by auto
    next
      fix ac assume g: "getitem conf ''anomalies'' = Inr ac"
      then obtain kvs where "conf = PDict kvs" "map_of kvs ''anomalies'' = Some ac"
        by (auto dest: getitem_Inr_dict)
      then have "contains ''anomalies'' conf = Inr True" by simp
      with component_anomalies_cases[OF ca] g
      have "contains ''probability'' ac = Inr True \<and> contains ''scale'' ac = Inr True \<and>
            anomalies = replicate (shape0 (structure_W s)) (Bernoulli ac)"
        by auto
      then show "contains ''probability'' ac = Inr True"
        and "contains ''scale'' ac = Inr True"
        and "anomalies = replicate (shape0 (structure_W s)) (Bernoulli ac)"
        by simp_all
    }
  qed
  have calls: "(\<forall>x w. call_anomaly B (*) Identity x (w :: 'g world) = (Inr x, w)) \<and>
   (\<forall>ac p x w. getitem ac ''probability'' = Inr p \<and> py_number p = Some 0 \<and>
      0 \<le> randoms w (drawn w) \<longrightarrow>
      call_anomaly B (*) (Bernoulli ac) x (w :: 'h world) = (Inr x, w\<lparr>drawn := Suc (drawn w)\<rparr>)) \<and>
   (\<forall>ac p sc k x w. getitem ac ''probability'' = Inr p \<and> py_number p = Some 1 \<and>
      randoms w (drawn w) < 1 \<and> getitem ac ''scale'' = Inr sc \<and> py_float B sc = Inr k \<longrightarrow>
      call_anomaly B (*) (Bernoulli ac) x (w :: 'i world) =
        (Inr (x * k), w\<lparr>drawn := Suc (drawn w)\<rparr>))"
    by (auto simp: call_identity call_bernoulli_miss call_bernoulli_hit)
  from valid forward backward calls show ?thesis by blast
qed


lemma example_season_anomalous_structure:
  "component_structure example_builtins example_season_anomalous =
     Inr (cyclic_fourier 12 (PInt 2) (scale_matrix (np_identity 4) (1 / 10)),
          replicate 4 (PInt 1))"
  by (simp add: component_structure_def example_builtins_def example_season_anomalous_def
      np_identity_py_def shape0_def scale_matrix_def)

theorem anomaly_factory_witness:
  "valid_component example_builtins example_season_anomalous \<and>
   parse_component example_builtins example_season_anomalous =
     Inr (cyclic_fourier 12 (PInt 2) (scale_matrix (np_identity 4) (1 / 10)),
          replicate 4 (Bernoulli (PDict [(''probability'', PFloat (1 / 2)), (''scale'', PInt 10)])),
          replicate 4 (PInt 1)) \<and>
   documented_dimension example_season_anomalous = Some 4 \<and>
   parse_component example_builtins example_season =
     Inr (cyclic_fourier 12 (PInt 2) (scale_matrix (np_identity 4) (1 / 10)),
          replicate 4 Identity, replicate 4 (PInt 1)) \<and>
   apply_anomalies example_builtins
     (replicate 2 (Bernoulli (PDict [(''probability'', PFloat (1 / 2)), (''scale'', PInt 10)])))
     [3, 5] example_world =
     (Inr [30, 5], example_world\<lparr>drawn := 2\<rparr>) \<and>
   call_anomaly example_builtins (*)
     (Bernoulli (PDict [(''probability'', PInt 0), (''scale'', PInt 10)])) 3
     \<lparr>randoms = (\<lambda>n. 1 / 4), drawn = 0, np_rng = (), trace = []\<rparr> =
     (Inr 3, \<lparr>randoms = (\<lambda>n. 1 / 4), drawn = 1, np_rng = (), trace = []\<rparr>) \<and>
   call_anomaly example_builtins (*)
     (Bernoulli (PDict [(''probability'', PInt 1), (''scale'', PInt 10)])) 3
     \<lparr>randoms = (\<lambda>n. 1 / 4), drawn = 0, np_rng = (), trace = []\<rparr> =
     (Inr 30, \<lparr>randoms = (\<lambda>n. 1 / 4), drawn = 1, np_rng = (), trace = []\<rparr>)"
proof -
  let ?ac = "PDict [(''probability'', PFloat (1 / 2)), (''scale'', PInt 10)]"
  let ?S = "cyclic_fourier 12 (PInt 2) (scale_matrix (np_identity 4) (1 / 10))"
  have v: "valid_component example_builtins example_season_anomalous"
    by (simp add: valid_component_def example_season_anomalous_def example_builtins_def)
  note F = anomaly_factory[of example_builtins example_season_anomalous,
      THEN conjunct2, THEN conjunct1, rule_format, OF example_season_anomalous_structure]
  have block: "getitem example_season_anomalous ''anomalies'' = Inr ?ac \<and>
      contains ''probability'' ?ac = Inr True \<and> contains ''scale'' ?ac = Inr True"
    by (simp add: example_season_anomalous_def)
  have sh: "shape0 (structure_W ?S) = 4"
    by (simp add: shape0_def scale_matrix_def)
  from F block have a: "parse_component example_builtins example_season_anomalous =
      Inr (?S, replicate (shape0 (structure_W ?S)) (Bernoulli ?ac), replicate 4 (PInt 1))"
    by blast
  from F have d: "documented_dimension example_season_anomalous = Some 4"
    using sh by auto
  note G = anomaly_factory[of example_builtins example_season,
      THEN conjunct2, THEN conjunct2]
  have zero: "getitem (PDict [(''probability'', PInt 0), (''scale'', PInt 10)]) ''probability'' =
      Inr (PInt 0) \<and> py_number (PInt 0) = Some 0 \<and>
      0 \<le> randoms \<lparr>randoms = (\<lambda>n. 1 / 4), drawn = 0, np_rng = (), trace = []\<rparr>
             (drawn \<lparr>randoms = (\<lambda>n. 1 / 4), drawn = 0, np_rng = (), trace = []\<rparr>)"
    by simp
  have one: "getitem (PDict [(''probability'', PInt 1), (''scale'', PInt 10)]) ''probability'' =
      Inr (PInt 1) \<and> py_number (PInt 1) = Some 1 \<and>
      randoms \<lparr>randoms = (\<lambda>n. 1 / 4), drawn = 0, np_rng = (), trace = []\<rparr>
             (drawn \<lparr>randoms = (\<lambda>n. 1 / 4), drawn = 0, np_rng = (), trace = []\<rparr>) < 1 \<and>
      getitem (PDict [(''probability'', PInt 1), (''scale'', PInt 10)]) ''scale'' = Inr (PInt 10) \<and>
      py_float example_builtins (PInt 10) = Inr 10"
    by simp
  from G[THEN conjunct2, THEN conjunct2, THEN conjunct1, rule_format, OF zero]
  have z: "call_anomaly example_builtins (*)
     (Bernoulli (PDict [(''probability'', PInt 0), (''scale'', PInt 10)])) 3
     \<lparr>randoms = (\<lambda>n. 1 / 4), drawn = 0, np_rng = (), trace = []\<rparr> =
     (Inr 3, \<lparr>randoms = (\<lambda>n. 1 / 4), drawn = 1, np_rng = (), trace = []\<rparr>)"
    by simp
  from G[THEN conjunct2, THEN conjunct2, THEN conjunct2, rule_format, OF one]
  have o: "call_anomaly example_builtins (*)
     (Bernoulli (PDict [(''probability'', PInt 1), (''scale'', PInt 10)])) 3
     \<lparr>randoms = (\<lambda>n. 1 / 4), drawn = 0, np_rng = (), trace = []\<rparr> =
     (Inr 30, \<lparr>randoms = (\<lambda>n. 1 / 4), drawn = 1, np_rng = (), trace = []\<rparr>)"
    by simp
  have ind: "apply_anomalies example_builtins (replicate 2 (Bernoulli ?ac)) [3, 5] example_world =
     (Inr [30, 5], example_world\<lparr>drawn := 2\<rparr>)"
    by (simp add: numeral_2_eq_2 call_anomaly_def float_less_def example_builtins_def
        example_world_def)
  from v a[unfolded sh] d example_season_builds ind z o show ?thesis by simp
qed

section \<open>An incomplete anomalies block\<close>

lemma component_anomalies_partial:
  assumes "getitem conf ''anomalies'' = Inr ac"
    and "contains ''probability'' ac = Inr False \<or>
         (contains ''probability'' ac = Inr True \<and> contains ''scale'' ac = Inr False)"
  shows "component_anomalies conf s = Inl (UnboundLocalError ''anomalies'')"
proof -
  from assms(1) obtain kvs where "conf = PDict kvs" "map_of kvs ''anomalies'' = Some ac"
    by (auto dest: getitem_Inr_dict)
  with assms show ?thesis
    by (auto simp: component_anomalies_def)
qed

text \<open>
  C6. A component whose \<^verbatim>\<open>anomalies\<close> block has a probability and no scale does not
  build: the local variable \<^verbatim>\<open>anomalies\<close> is read before any branch has assigned it,
  and no structure is returned.
\<close>

theorem partial_anomalies_unbound:
  "parse_component B example_partial = Inl (UnboundLocalError ''anomalies'')"
  by (simp add: parse_component_def component_structure_def component_anomalies_def
      example_partial_def)

section \<open>The observation binder\<close>

text \<open>
  C9. A categorical observation specification with both \<^verbatim>\<open>values\<close> (a string of
  comma-separated labels) and \<^verbatim>\<open>categories\<close> builds the label-reporting model from
  \<^verbatim>\<open>values\<close>, whatever \<^verbatim>\<open>categories\<close> holds.
\<close>

theorem values_take_precedence:
  assumes "getitem obs ''type'' = Inr (PStr ''categorical'')"
    and "getitem obs ''values'' = Inr (PStr vs)"
    and "getitem obs ''categories'' = Inr c"
  shows "parse_observations obs s = Inr (BinomialTransformer s (split CHR '','' vs))"
proof -
  from assms(2) obtain kvs where "obs = PDict kvs" "map_of kvs ''values'' = Some (PStr vs)"
    by (auto dest: getitem_Inr_dict)
  with assms show ?thesis
    by (simp add: parse_observations_def)
qed

theorem values_take_precedence_witness:
  "parse_observations
     (PDict [(''type'', PStr ''categorical''), (''values'', PStr ''a,b''),
             (''categories'', PInt 5)]) (locally_constant 1) =
   Inr (BinomialTransformer (locally_constant 1) [''a'', ''b''])"
  using values_take_precedence[of
      "PDict [(''type'', PStr ''categorical''), (''values'', PStr ''a,b''),
              (''categories'', PInt 5)]" "''a,b''" "PInt 5" "locally_constant 1"]
  by simp

section \<open>The structure composer\<close>

lemma mapM_Inr_Cons:
  "(mapM f (x # xs) = Inr ys) = (\<exists>y ys'. f x = Inr y \<and> mapM f xs = Inr ys' \<and> ys = y # ys')"
  by (auto simp: err_bind_eq_Inr)

lemma structure_loop_Inr:
  "(structure_loop B cs (ss, m, an) = Inr (ss', m', an')) =
   (\<exists>rs. mapM (parse_component B) cs = Inr rs \<and> ss' = ss @ map fst rs \<and>
      m' = m @ concat (map (snd \<circ> snd) rs) \<and> an' = an @ concat (map (fst \<circ> snd) rs))"
proof (induction cs arbitrary: ss m an)
  case Nil
  show ?case by auto
next
  case (Cons c cs)
  show ?case
  proof (cases "parse_component B c")
    case (Inl e)
    then show ?thesis by simp
  next
    case (Inr r)
    obtain s a m1 where r: "r = (s, a, m1)" by (cases r) auto
    have step: "structure_loop B (c # cs) (ss, m, an) =
        structure_loop B cs (ss @ [s], m @ m1, an @ a)"
      using Inr r by simp
    have eq: "(\<exists>rs. mapM (parse_component B) (c # cs) = Inr rs \<and> ss' = ss @ map fst rs \<and>
        m' = m @ concat (map (snd \<circ> snd) rs) \<and> an' = an @ concat (map (fst \<circ> snd) rs)) =
      (\<exists>rs. mapM (parse_component B) cs = Inr rs \<and> ss' = (ss @ [s]) @ map fst rs \<and>
        m' = (m @ m1) @ concat (map (snd \<circ> snd) rs) \<and>
        an' = (an @ a) @ concat (map (fst \<circ> snd) rs))"
      unfolding mapM_Inr_Cons using Inr r by auto
    have "(structure_loop B (c # cs) (ss, m, an) = Inr (ss', m', an')) =
        (structure_loop B cs (ss @ [s], m @ m1, an @ a) = Inr (ss', m', an'))"
      by (simp only: step)
    also have "\<dots> = (\<exists>rs. mapM (parse_component B) cs = Inr rs \<and> ss' = (ss @ [s]) @ map fst rs \<and>
        m' = (m @ m1) @ concat (map (snd \<circ> snd) rs) \<and>
        an' = (an @ a) @ concat (map (fst \<circ> snd) rs))"
      by (rule Cons.IH)
    finally show ?thesis
      by (simp only: eq)
  qed
qed

lemma structure_loop_Inl:
  assumes "mapM (parse_component B) pre = Inr rs" and "parse_component B c = Inl e"
  shows "structure_loop B (pre @ c # post) acc = Inl e"
  using assms
proof (induction pre arbitrary: rs acc)
  case Nil
  then show ?case by (cases acc) simp
next
  case (Cons p pre)
  then show ?case by (cases acc) (auto simp: err_bind_eq_Inr)
qed

lemma ncols_block_diag: "ncols (block_diag A B) = ncols A + ncols B"
  by (cases A; cases B) (simp_all add: ncols_def block_diag_def)

lemma block_diag_Nil_right: "block_diag A [] = A"
  by (simp add: block_diag_def ncols_def)

lemma block_diag_assoc: "block_diag (block_diag A B) C = block_diag A (block_diag B C)"
  by (simp add: block_diag_def[of "block_diag A B" C] block_diag_def[of A "block_diag B C"]
      ncols_block_diag replicate_add)
    (simp add: block_diag_def)

lemma foldl_block_diag: "foldl block_diag A Ms = block_diag A (block_diag_list Ms)"
  by (induction Ms arbitrary: A)
    (simp_all add: block_diag_list_def block_diag_Nil_right block_diag_assoc)

lemma structure_W_foldl:
  "structure_W (foldl structure_add x xs) = foldl block_diag (structure_W x) (map structure_W xs)"
  by (induction xs arbitrary: x) simp_all

lemma structure_W_composite:
  "structure_W (foldl structure_add x xs) = block_diag_list (map structure_W (x # xs))"
  by (simp add: structure_W_foldl foldl_block_diag) (simp add: block_diag_list_def)

lemma is_square_ncols: "is_square n M \<Longrightarrow> ncols M = n"
  by (cases M) (auto simp: is_square_def ncols_def)

lemma is_square_block_diag:
  "is_square a A \<Longrightarrow> is_square b B \<Longrightarrow> is_square (a + b) (block_diag A B)"
  by (frule is_square_ncols, frule is_square_ncols[of b])
    (auto simp: is_square_def block_diag_def list_all_iff)

lemma is_square_block_diag_list:
  "list_all2 is_square ns Ms \<Longrightarrow> is_square (sum_list ns) (block_diag_list Ms)"
proof (induction ns Ms rule: list_all2_induct)
  case Nil
  show ?case by (simp add: block_diag_list_def is_square_def)
next
  case (Cons n ns M Ms)
  then show ?case
    using is_square_block_diag[of n M "sum_list ns" "block_diag_list Ms"]
    by (simp add: block_diag_list_def)
qed

lemma mapM_components:
  assumes "mapM (parse_component B) cs = Inr rs"
  shows "list_all2 is_square (map (length \<circ> snd \<circ> snd) rs) (map (structure_W \<circ> fst) rs) \<and>
         map (length \<circ> fst \<circ> snd) rs = map (length \<circ> snd \<circ> snd) rs"
  using assms
proof (induction cs arbitrary: rs)
  case Nil
  then show ?case by simp
next
  case (Cons c cs)
  then obtain r rs' where r: "parse_component B c = Inr r" "mapM (parse_component B) cs = Inr rs'"
    "rs = r # rs'"
    unfolding mapM_Inr_Cons by blast
  obtain s a m where ra: "r = (s, a, m)" by (cases r) auto
  from r(1) ra have "component_structure B c = Inr (s, m)"
    by (simp add: parse_component_Inr)
  from component_structure_dimension[OF this]
  have sq: "is_square (length m) (structure_W s)" by auto
  from r(1) ra have "length a = shape0 (structure_W s)"
    by (auto simp: parse_component_Inr dest: component_anomalies_length)
  with sq have "length a = length m" by (simp add: is_square_def shape0_def)
  with sq Cons.IH[OF r(2)] r(3) ra show ?case by simp
qed

lemma length_concat_map: "length (concat (map f xs)) = sum_list (map (length \<circ> f) xs)"
  by (induction xs) simp_all

lemma samplings_append: "samplings (es @ fs) = samplings es + samplings fs"
  by (induction es rule: samplings.induct) simp_all

lemma call_anomaly_trace: "call_anomaly B mul a x w = (r, w') \<Longrightarrow> trace w' = trace w"
  by (auto simp: call_anomaly_def split: prod.splits if_splits)

lemma perturb_loop_trace:
  "perturb_loop B anomalies state js acc w = (r, w') \<Longrightarrow> trace w' = trace w"
proof (induction js arbitrary: acc w)
  case Nil
  then show ?case by simp
next
  case (Cons j js)
  show ?case
  proof (cases "py_nth anomalies j")
    case (Inl e)
    with Cons.prems show ?thesis by simp
  next
    case (Inr a)
    obtain q w1 where c: "call_anomaly B (*) a (state ! j) w = (q, w1)"
      by (cases "call_anomaly B (*) a (state ! j) w") auto
    then have t: "trace w1 = trace w" by (rule call_anomaly_trace)
    show ?thesis
    proof (cases q)
      case (Inl e)
      with Cons.prems Inr c t show ?thesis by simp
    next
      case (Inr v)
      with Cons.prems \<open>py_nth anomalies j = Inr a\<close> c
      have "perturb_loop B anomalies state js (acc[j := v]) w1 = (r, w')" by simp
      from Cons.IH[OF this] t show ?thesis by simp
    qed
  qed
qed

lemma perturb_trace: "perturb B anomalies state w = (r, w') \<Longrightarrow> trace w' = trace w"
  by (auto simp: perturb_def Let_def split: if_splits sum.splits
      dest: call_anomaly_trace perturb_loop_trace)

lemma emit_samplings:
  "emit B L topic model period name state p w = (r, w') \<Longrightarrow>
   samplings (trace w') = samplings (trace w)"
  by (auto simp: emit_def samplings_append split: sum.splits prod.splits if_splits)

lemma tick_samplings:
  assumes "tick B L topic model period name anomalies state w = (r, w')"
  shows "samplings (trace w') = samplings (trace w)"
proof -
  obtain q w1 where p: "perturb B anomalies state w = (q, w1)"
    by (cases "perturb B anomalies state w") auto
  then have t: "trace w1 = trace w" by (rule perturb_trace)
  show ?thesis
  proof (cases q)
    case (Inl e)
    with assms p t show ?thesis by (simp add: tick_def)
  next
    case (Inr v)
    with assms p have "emit B L topic model period name state v w1 = (r, w')"
      by (simp add: tick_def)
    from emit_samplings[OF this] t show ?thesis by simp
  qed
qed

lemma run_loop_samplings:
  "run_loop B L topic model period name anomalies n state w = (r, w') \<Longrightarrow>
   samplings (trace w') = samplings (trace w)"
proof (induction n arbitrary: state w)
  case 0
  then show ?case by simp
next
  case (Suc n)
  obtain q w1 where t: "tick B L topic model period name anomalies state w = (q, w1)"
    by (cases "tick B L topic model period name anomalies state w") auto
  note s = tick_samplings[OF t]
  show ?case
  proof (cases q)
    case (Inl e)
    with Suc.prems t s show ?thesis by simp
  next
    case (Inr st)
    with Suc.prems t have "run_loop B L topic model period name anomalies n st w1 = (r, w')"
      by simp
    from Suc.IH[OF this] s show ?thesis by simp
  qed
qed

lemma parse_structure_PList:
  assumes "mapM (parse_component B) cs = Inr rs" and "cs \<noteq> []"
  shows "parse_structure B (PList cs) =
     Inr (foldl structure_add (fst (hd rs)) (map fst (tl rs)),
          concat (map (snd \<circ> snd) rs),
          np_eye (length (concat (map (snd \<circ> snd) rs))),
          concat (map (fst \<circ> snd) rs))"
proof -
  have loop: "structure_loop B cs ([], [], []) =
      Inr (map fst rs, concat (map (snd \<circ> snd) rs), concat (map (fst \<circ> snd) rs))"
    using assms(1) by (simp add: structure_loop_Inr)
  from assms obtain r rs' where rs: "rs = r # rs'"
    by (cases cs; cases rs) (auto simp: mapM_Inr_Cons simp del: mapM.simps)
  show ?thesis
    by (simp add: parse_structure_def loop) (simp add: rs)
qed

lemma parse_structure_Inl:
  assumes "mapM (parse_component B) pre = Inr rs" and "parse_component B c = Inl e"
  shows "parse_structure B (PList (pre @ c # post)) = Inl e"
  by (simp add: parse_structure_def structure_loop_Inl[OF assms])

lemma parse_configuration_Inr:
  assumes "parse_configuration B L conf w = (Inr (model, state, period, name, an), w')"
  shows "\<exists>m0 C0 g. configuration_model B conf = Inr (model, m0, C0, an) \<and>
           mvn_rvs L m0 C0 (np_rng w) = Inr (state, g) \<and>
           w' = w\<lparr>np_rng := g, trace := trace w @ [Rvs m0 C0]\<rparr>"
  using assms
  by (auto simp: parse_configuration_def split: sum.splits prod.splits)

lemma configuration_model_plain:
  assumes "contains ''compose'' conf = Inr False" and "getitem conf ''structure'' = Inr sc"
  shows "configuration_model B conf =
     err_bind (parse_structure B sc) (\<lambda>(s, m0, C0, anomalies).
     err_bind (getitem conf ''observations'') (\<lambda>oc.
     err_bind (parse_observations oc s) (\<lambda>model.
       Inr (model, map Elem m0, C0, anomalies))))"
  using assms by (simp add: configuration_model_def)

text \<open>
  C2, amended. For every list of component specifications that is not empty and whose
  members all build, the composer returns the left-to-right sum of the blocks, whose noise
  covariance is the block-diagonal union of theirs in the order of the list; the prior
  mean is the concatenation of their means, the prior covariance the identity of the
  total dimension, and there is one anomaly function per dimension. Parsing a
  configuration with this structure samples the prior once, and no iteration of the loop
  samples it again.
\<close>

theorem parse_structure_composes:
  assumes "mapM (parse_component B) cs = Inr rs" and "cs \<noteq> []"
  shows "\<exists>s m0 anomalies.
     parse_structure B (PList cs) = Inr (s, m0, np_eye (length m0), anomalies) \<and>
     s = foldl structure_add (fst (hd rs)) (map fst (tl rs)) \<and>
     structure_W s = block_diag_list (map (structure_W \<circ> fst) rs) \<and>
     m0 = concat (map (snd \<circ> snd) rs) \<and>
     anomalies = concat (map (fst \<circ> snd) rs) \<and>
     is_square (length m0) (structure_W s) \<and> length anomalies = length m0 \<and>
     (\<forall>L conf w model state period name an w'.
        contains ''compose'' conf = Inr False \<and> getitem conf ''structure'' = Inr (PList cs) \<and>
        parse_configuration B L conf w = (Inr (model, state, period, name, an), w') \<longrightarrow>
        (\<exists>g. mvn_rvs L (map Elem m0) (np_eye (length m0)) (np_rng w) = Inr (state, g)) \<and>
        trace w' = trace w @ [Rvs (map Elem m0) (np_eye (length m0))] \<and> an = anomalies \<and>
        (\<forall>topic n r w''.
           run_loop B L topic model period name an n state w' = (r, w'') \<longrightarrow>
           samplings (trace w'') = samplings (trace w) + 1))"
proof -
  define s where "s = foldl structure_add (fst (hd rs)) (map fst (tl rs))"
  define m0 where "m0 = concat (map (snd \<circ> snd) rs)"
  define anomalies where "anomalies = concat (map (fst \<circ> snd) rs)"
  have ps: "parse_structure B (PList cs) = Inr (s, m0, np_eye (length m0), anomalies)"
    unfolding s_def m0_def anomalies_def by (rule parse_structure_PList[OF assms])
  from assms obtain r rs' where rs: "rs = r # rs'"
    by (cases cs; cases rs) (auto simp: mapM_Inr_Cons simp del: mapM.simps)
  have W: "structure_W s = block_diag_list (map (structure_W \<circ> fst) rs)"
    unfolding s_def rs by (simp add: structure_W_composite)
  note mc = mapM_components[OF assms(1)]
  have len_m0: "length m0 = sum_list (map (length \<circ> snd \<circ> snd) rs)"
    by (simp add: m0_def length_concat_map comp_def)
  have sq: "is_square (length m0) (structure_W s)"
    unfolding W len_m0 using mc by (intro is_square_block_diag_list) simp
  have len_an: "length anomalies = length m0"
  proof -
    from mc have "map (length \<circ> (fst \<circ> snd)) rs = map (length \<circ> (snd \<circ> snd)) rs"
      by (simp add: comp_def)
    then show ?thesis
      by (simp only: anomalies_def m0_def length_concat_map)
  qed
  have sampling: "(\<exists>g. mvn_rvs L (map Elem m0) (np_eye (length m0)) (np_rng w) = Inr (state, g)) \<and>
        trace w' = trace w @ [Rvs (map Elem m0) (np_eye (length m0))] \<and> an = anomalies \<and>
        (\<forall>topic n r w''.
           run_loop B L topic model period name an n state w' = (r, w'') \<longrightarrow>
           samplings (trace w'') = samplings (trace w) + 1)"
    if h: "contains ''compose'' conf = Inr False \<and> getitem conf ''structure'' = Inr (PList cs) \<and>
        parse_configuration B L conf w = (Inr (model, state, period, name, an), w')"
    for L :: "'g library" and conf w model state period name an w'
  proof -
    from h parse_configuration_Inr[of B L conf w model state period name an w']
    obtain p C0 g where cm: "configuration_model B conf = Inr (model, p, C0, an)"
      and rvs: "mvn_rvs L p C0 (np_rng w) = Inr (state, g)"
      and w': "w' = w\<lparr>np_rng := g, trace := trace w @ [Rvs p C0]\<rparr>"
      by blast
    from h cm have "p = map Elem m0 \<and> C0 = np_eye (length m0) \<and> an = anomalies"
      by (auto simp: configuration_model_plain ps err_bind_eq_Inr)
    with rvs w' have a: "mvn_rvs L (map Elem m0) (np_eye (length m0)) (np_rng w) = Inr (state, g)"
      and b: "trace w' = trace w @ [Rvs (map Elem m0) (np_eye (length m0))]"
      and c: "an = anomalies"
      by simp_all
    have "samplings (trace w'') = samplings (trace w) + 1"
      if "run_loop B L topic model period name an n state w' = (r, w'')" for topic n r w''
      using run_loop_samplings[OF that] b by (simp add: samplings_append)
    with a b c show ?thesis by blast
  qed
  from ps W sq len_an sampling show ?thesis
    unfolding s_def[symmetric] m0_def[symmetric] anomalies_def[symmetric]
    by (intro exI[of _ s] exI[of _ m0] exI[of _ anomalies]) (simp add: s_def m0_def anomalies_def, blast)
qed

text \<open>
  C2 as stated fails on the empty list: all its members build, and the composer raises,
  since \<^verbatim>\<open>reduce\<close> has no initial value.
\<close>

theorem empty_structure_fails:
  "mapM (parse_component example_builtins) [] = Inr [] \<and>
   parse_structure example_builtins (PList []) = Inl TypeError"
  by (simp add: parse_structure_def)


theorem parse_structure_composes_witness:
  "mapM (parse_component example_builtins) [example_mean, example_season] =
     Inr [(locally_constant 1, [Identity], [PInt 0]),
          (cyclic_fourier 12 (PInt 2) (scale_matrix (np_identity 4) (1 / 10)),
           replicate 4 Identity, replicate 4 (PInt 1))] \<and>
   [example_mean, example_season] \<noteq> [] \<and>
   parse_structure example_builtins (PList [example_mean, example_season]) =
     Inr (structure_add (locally_constant 1)
            (cyclic_fourier 12 (PInt 2) (scale_matrix (np_identity 4) (1 / 10))),
          PInt 0 # replicate 4 (PInt 1), np_eye 5, Identity # replicate 4 Identity) \<and>
   parse_configuration example_builtins example_library example_conf example_world =
     (Inr (BinomialTransformer
             (structure_add (locally_constant 1)
                (cyclic_fourier 12 (PInt 2) (scale_matrix (np_identity 4) (1 / 10))))
             [''low'', ''high''],
           [0, 1, 1, 1, 1], 2, PStr ''data'', Identity # replicate 4 Identity),
      \<lparr>randoms = (\<lambda>n. if even n then 1 / 4 else 3 / 4), drawn = 0, np_rng = 1,
        trace = [Rvs (map Elem (PInt 0 # replicate 4 (PInt 1))) (np_eye 5)]\<rparr>)"
proof -
  have m: "mapM (parse_component example_builtins) [example_mean, example_season] =
     Inr [(locally_constant 1, [Identity], [PInt 0]),
          (cyclic_fourier 12 (PInt 2) (scale_matrix (np_identity 4) (1 / 10)),
           replicate 4 Identity, replicate 4 (PInt 1))]"
    by (simp add: example_mean_builds example_season_builds)
  have ne: "[example_mean, example_season] \<noteq> []" by simp
  from parse_structure_composes[OF m ne]
  have ps: "parse_structure example_builtins (PList [example_mean, example_season]) =
     Inr (structure_add (locally_constant 1)
            (cyclic_fourier 12 (PInt 2) (scale_matrix (np_identity 4) (1 / 10))),
          PInt 0 # replicate 4 (PInt 1), np_eye 5, Identity # replicate 4 Identity)"
    by auto
  have cm: "configuration_model example_builtins example_conf =
     Inr (BinomialTransformer
             (structure_add (locally_constant 1)
                (cyclic_fourier 12 (PInt 2) (scale_matrix (np_identity 4) (1 / 10))))
             [''low'', ''high''],
          map Elem (PInt 0 # replicate 4 (PInt 1)), np_eye 5, Identity # replicate 4 Identity)"
    by (simp add: configuration_model_def example_conf_def ps parse_observations_def)
  have pc: "parse_configuration example_builtins example_library example_conf example_world =
     (Inr (BinomialTransformer
             (structure_add (locally_constant 1)
                (cyclic_fourier 12 (PInt 2) (scale_matrix (np_identity 4) (1 / 10))))
             [''low'', ''high''],
           [0, 1, 1, 1, 1], 2, PStr ''data'', Identity # replicate 4 Identity),
      \<lparr>randoms = (\<lambda>n. if even n then 1 / 4 else 3 / 4), drawn = 0, np_rng = 1,
        trace = [Rvs (map Elem (PInt 0 # replicate 4 (PInt 1))) (np_eye 5)]\<rparr>)"
    by (simp add: parse_configuration_def cm)
      (simp add: example_library_def example_world_def period_and_name_def example_conf_def
        numeral_eq_Suc)
  from m ne ps pc show ?thesis by blast
qed

section \<open>Configuration errors\<close>

lemma parse_component_unknown:
  assumes "getitem c ''type'' = Inr t"
    and "t \<noteq> PStr ''mean''" and "t \<noteq> PStr ''season''" and "t \<noteq> PStr ''arma''"
  shows "parse_component B c = Inl (ValueError unknown_component_type [t])"
  using assms by (simp add: parse_component_def component_structure_def)

lemma parse_observations_unknown:
  assumes "getitem obs ''type'' = Inr t"
    and "t \<noteq> PStr ''continuous''" and "t \<noteq> PStr ''discrete''" and "t \<noteq> PStr ''categorical''"
  shows "parse_observations obs s = Inl (ValueError ''Model type {} is not valid'' [t])"
  using assms by (simp add: parse_observations_def)

lemma parse_observations_neither:
  assumes "getitem obs ''type'' = Inr (PStr ''categorical'')"
    and "contains ''values'' obs = Inr False" and "contains ''categories'' obs = Inr False"
  shows "parse_observations obs s = Inl (ValueError categorical_needs [])"
  using assms by (simp add: parse_observations_def)

lemma parse_configuration_Inl:
  "configuration_model B d = Inl e \<Longrightarrow> parse_configuration B L d w = (Inl e, w)"
  by (simp add: parse_configuration_def)

lemma main_build_error:
  assumes "arg_conf a = Some f" and "f \<noteq> []" and "read_conf L f = Inr d"
    and "configuration_model B d = Inl e"
  shows "main B L a n w = (Inl e, w)"
proof -
  from assms(2) obtain c cs where f: "f = c # cs" by (cases f) auto
  show ?thesis
    using assms(1,3) parse_configuration_Inl[OF assms(4), of L w]
    by (simp add: main_def main_setup_def f)
qed

lemma configuration_model_component_error:
  assumes "contains ''compose'' d = Inr False"
    and "getitem d ''structure'' = Inr (PList (pre @ c # post))"
    and "mapM (parse_component B) pre = Inr rs" and "parse_component B c = Inl e"
  shows "configuration_model B d = Inl e"
  by (simp add: configuration_model_plain[OF assms(1,2)] parse_structure_Inl[OF assms(3,4)])

lemma configuration_model_observation_error:
  assumes "contains ''compose'' d = Inr False"
    and "getitem d ''structure'' = Inr sc" and "parse_structure B sc = Inr (s, m0, C0, an)"
    and "getitem d ''observations'' = Inr obs" and "parse_observations obs s = Inl e"
  shows "configuration_model B d = Inl e"
  using assms(3-5) by (simp add: configuration_model_plain[OF assms(1,2)])

lemma composite_loop_Inl:
  assumes "composite_element B el = Inl e"
  shows "composite_loop B (el # rest) acc = Inl e"
  using assms by (cases acc) simp

lemma composite_element_structure_error:
  assumes "getitem el ''structure'' = Inr sc" and "parse_structure B sc = Inl e"
  shows "composite_element B el = Inl e"
proof -
  from assms(1) obtain kvs where "el = PDict kvs" by (auto dest: getitem_Inr_dict)
  with assms show ?thesis by (simp add: composite_element_def)
qed

lemma composite_loop_error:
  assumes "mapM (composite_element B) pre = Inr rs" and "composite_element B el = Inl e"
  shows "composite_loop B (pre @ el # post) acc = Inl e"
  using assms
proof (induction pre arbitrary: rs acc)
  case Nil
  then show ?case by (cases acc) simp
next
  case (Cons p pre)
  from Cons.prems(1) obtain r rs' where r: "composite_element B p = Inr r"
    and rest: "mapM (composite_element B) pre = Inr rs'"
    unfolding mapM_Inr_Cons by blast
  obtain ms pm av where ra: "r = (ms, pm, av)" by (cases r) auto
  obtain models prior_mean anomaly_vector where acc: "acc = (models, prior_mean, anomaly_vector)"
    by (cases acc) auto
  have "composite_loop B ((p # pre) @ el # post) acc =
      composite_loop B (pre @ el # post) (models @ ms, prior_mean @ pm, anomaly_vector @ av)"
    by (simp add: acc r ra)
  with Cons.IH[OF rest Cons.prems(2)] show ?case by simp
qed

lemma configuration_model_compose_error:
  assumes "contains ''compose'' d = Inr True"
    and "getitem d ''compose'' = Inr (PList (pre @ el # post))"
    and "mapM (composite_element B) pre = Inr rs" and "composite_element B el = Inl e"
  shows "configuration_model B d = Inl e"
  using assms(1,2)
  by (simp add: configuration_model_def parse_composite_def composite_loop_error[OF assms(3,4)])

lemma composite_element_component_error:
  assumes "getitem el ''structure'' = Inr (PList (pre @ c # post))"
    and "mapM (parse_component B) pre = Inr rs" and "parse_component B c = Inl e"
  shows "composite_element B el = Inl e"
  by (rule composite_element_structure_error[OF assms(1) parse_structure_Inl[OF assms(2,3)]])

lemma composite_element_observation_error:
  assumes "getitem el ''structure'' = Inr sc" and "parse_structure B sc = Inr (s, m0, Cm, an)"
    and "getitem el ''observations'' = Inr obs" and "parse_observations obs s = Inl e"
    and "contains ''replicate'' el = Inr False \<or>
         (\<exists>n k. getitem el ''replicate'' = Inr n \<and> py_index n = Some k)"
  shows "composite_element B el = Inl e"
proof -
  from assms(1) obtain kvs where el: "el = PDict kvs" by (auto dest: getitem_Inr_dict)
  from assms(5) show ?thesis
  proof
    assume "contains ''replicate'' el = Inr False"
    with assms(1-4) show ?thesis by (simp add: composite_element_def)
  next
    assume "\<exists>n k. getitem el ''replicate'' = Inr n \<and> py_index n = Some k"
    then obtain n k where n: "getitem el ''replicate'' = Inr n" "py_index n = Some k" by blast
    then have "contains ''replicate'' el = Inr True"
      by (auto simp: el split: option.splits)
    with assms(1-4) n show ?thesis
      by (simp add: composite_element_def list_times_def)
  qed
qed

text \<open>
  C7. A component of unrecognised type, an observation specification of unrecognised
  type and a categorical one with neither \<^verbatim>\<open>values\<close> nor \<^verbatim>\<open>categories\<close> each raise
  the \<^verbatim>\<open>ValueError\<close> of the source (the first two with the offending value as the
  argument of the message). Such an error of a component or of the observations, in a
  plain configuration or in an element of a composed one, ends the construction of the
  model, and the program then ends with the world as it was: no prior sampled, no message
  sent.
\<close>

theorem configuration_errors:
  "(\<forall>t. getitem c ''type'' = Inr t \<and> t \<noteq> PStr ''mean'' \<and> t \<noteq> PStr ''season'' \<and>
        t \<noteq> PStr ''arma'' \<longrightarrow>
        parse_component B c = Inl (ValueError unknown_component_type [t])) \<and>
   (\<forall>t. getitem obs ''type'' = Inr t \<and> t \<noteq> PStr ''continuous'' \<and> t \<noteq> PStr ''discrete'' \<and>
        t \<noteq> PStr ''categorical'' \<longrightarrow>
        parse_observations obs s = Inl (ValueError ''Model type {} is not valid'' [t])) \<and>
   (getitem obs ''type'' = Inr (PStr ''categorical'') \<and> contains ''values'' obs = Inr False \<and>
      contains ''categories'' obs = Inr False \<longrightarrow>
      parse_observations obs s = Inl (ValueError categorical_needs [])) \<and>
   (\<forall>pre post rs e. contains ''compose'' d = Inr False \<and>
      getitem d ''structure'' = Inr (PList (pre @ c # post)) \<and>
      mapM (parse_component B) pre = Inr rs \<and> parse_component B c = Inl e \<longrightarrow>
      configuration_model B d = Inl e) \<and>
   (\<forall>sc m0 C0 an e. contains ''compose'' d = Inr False \<and> getitem d ''structure'' = Inr sc \<and>
      parse_structure B sc = Inr (s, m0, C0, an) \<and> getitem d ''observations'' = Inr obs \<and>
      parse_observations obs s = Inl e \<longrightarrow>
      configuration_model B d = Inl e) \<and>
   (\<forall>pre post rs e. getitem el ''structure'' = Inr (PList (pre @ c # post)) \<and>
      mapM (parse_component B) pre = Inr rs \<and> parse_component B c = Inl e \<longrightarrow>
      composite_element B el = Inl e) \<and>
   (\<forall>sc m0 C0 an e. getitem el ''structure'' = Inr sc \<and>
      parse_structure B sc = Inr (s, m0, C0, an) \<and> getitem el ''observations'' = Inr obs \<and>
      parse_observations obs s = Inl e \<and>
      (contains ''replicate'' el = Inr False \<or>
       (\<exists>n k. getitem el ''replicate'' = Inr n \<and> py_index n = Some k)) \<longrightarrow>
      composite_element B el = Inl e) \<and>
   (\<forall>epre epost ers e. contains ''compose'' d = Inr True \<and>
      getitem d ''compose'' = Inr (PList (epre @ el # epost)) \<and>
      mapM (composite_element B) epre = Inr ers \<and> composite_element B el = Inl e \<longrightarrow>
      configuration_model B d = Inl e) \<and>
   (\<forall>f e a L n w. arg_conf a = Some f \<and> f \<noteq> [] \<and> read_conf L f = Inr d \<and>
      configuration_model B d = Inl e \<longrightarrow>
      main B L a n w = (Inl e, w) \<and> samplings (trace (snd (main B L a n w))) = samplings (trace w) \<and>
      sent (trace (snd (main B L a n w))) = sent (trace w))"
proof (intro conjI allI impI)
  fix f e and a :: args and L :: "'g library" and n and w :: "'g world"
  assume h: "arg_conf a = Some f \<and> f \<noteq> [] \<and> read_conf L f = Inr d \<and>
      configuration_model B d = Inl e"
  then have m: "main B L a n w = (Inl e, w)" by (auto intro: main_build_error)
  show "main B L a n w = (Inl e, w)" by (rule m)
  show "samplings (trace (snd (main B L a n w))) = samplings (trace w)" by (simp add: m)
  show "sent (trace (snd (main B L a n w))) = sent (trace w)" by (simp add: m)
next
  fix sc m0 C0 an e
  assume "getitem el ''structure'' = Inr sc \<and>
      parse_structure B sc = Inr (s, m0, C0, an) \<and> getitem el ''observations'' = Inr obs \<and>
      parse_observations obs s = Inl e \<and>
      (contains ''replicate'' el = Inr False \<or>
       (\<exists>n k. getitem el ''replicate'' = Inr n \<and> py_index n = Some k))"
  then show "composite_element B el = Inl e"
    using composite_element_observation_error[of el sc B s m0 C0 an obs e] by blast
next
  fix pre post rs e
  assume "getitem el ''structure'' = Inr (PList (pre @ c # post)) \<and>
      mapM (parse_component B) pre = Inr rs \<and> parse_component B c = Inl e"
  then show "composite_element B el = Inl e"
    using composite_element_component_error[of el pre c post B rs e] by blast
next
  fix epre epost ers e
  assume "contains ''compose'' d = Inr True \<and>
      getitem d ''compose'' = Inr (PList (epre @ el # epost)) \<and>
      mapM (composite_element B) epre = Inr ers \<and> composite_element B el = Inl e"
  then show "configuration_model B d = Inl e"
    using configuration_model_compose_error[of d epre el epost B ers e] by blast
qed (auto intro: parse_component_unknown parse_observations_unknown parse_observations_neither
    configuration_model_component_error configuration_model_observation_error)


lemma example_single_structure:
  "parse_structure example_builtins (PList [example_mean]) =
     Inr (locally_constant 1, [PInt 0], np_eye 1, [Identity])"
proof -
  have "mapM (parse_component example_builtins) [example_mean] =
      Inr [(locally_constant 1, [Identity], [PInt 0])]"
    by (simp add: example_mean_builds)
  from parse_structure_PList[OF this] show ?thesis by simp
qed

theorem configuration_errors_witness:
  "parse_component example_builtins example_unknown =
     Inl (ValueError unknown_component_type [PStr ''trend'']) \<and>
   parse_observations (PDict [(''type'', PStr ''gaussian'')]) (locally_constant 1) =
     Inl (ValueError ''Model type {} is not valid'' [PStr ''gaussian'']) \<and>
   parse_observations (PDict [(''type'', PStr ''categorical'')]) (locally_constant 1) =
     Inl (ValueError categorical_needs []) \<and>
   main example_builtins (example_library\<lparr>yaml_load := (\<lambda>s. Inr example_bad_conf)\<rparr>)
     example_args 3 example_world =
     (Inl (ValueError unknown_component_type [PStr ''trend'']), example_world) \<and>
   main example_builtins (example_library\<lparr>yaml_load := (\<lambda>s. Inr example_bad_compose)\<rparr>)
     example_args 3 example_world =
     (Inl (ValueError unknown_component_type [PStr ''trend'']), example_world) \<and>
   main example_builtins (example_library\<lparr>yaml_load := (\<lambda>s. Inr example_bad_observation)\<rparr>)
     example_args 3 example_world =
     (Inl (ValueError categorical_needs []), example_world)"
proof -
  let ?L = "example_library\<lparr>yaml_load := (\<lambda>s. Inr example_bad_conf)\<rparr>"
  let ?Lc = "example_library\<lparr>yaml_load := (\<lambda>s. Inr example_bad_compose)\<rparr>"
  let ?Lo = "example_library\<lparr>yaml_load := (\<lambda>s. Inr example_bad_observation)\<rparr>"
  let ?discrete = "PDict [(''type'', PStr ''discrete'')]"
  let ?categorical = "PDict [(''type'', PStr ''categorical'')]"
  let ?el1 = "PDict [(''structure'', PList [example_mean]), (''observations'', ?discrete)]"
  let ?el2 = "PDict [(''replicate'', PInt 2),
                     (''structure'', PList [example_mean, example_unknown]),
                     (''observations'', ?discrete)]"
  let ?el3 = "PDict [(''replicate'', PInt 2), (''structure'', PList [example_mean]),
                     (''observations'', ?categorical)]"
  note T1 = configuration_errors[where c = example_unknown and B = example_builtins
      and obs = "PDict [(''type'', PStr ''gaussian'')]" and s = "locally_constant 1"
      and d = example_bad_conf and el = ?el2]
  note T2 = configuration_errors[where c = example_unknown and B = example_builtins
      and obs = ?categorical and s = "locally_constant 1"
      and d = example_bad_observation and el = ?el3]
  note T3 = configuration_errors[where c = example_unknown and B = example_builtins
      and obs = ?categorical and s = "locally_constant 1"
      and d = example_bad_compose and el = ?el2]
  have ty: "getitem example_unknown ''type'' = Inr (PStr ''trend'') \<and>
      PStr ''trend'' \<noteq> PStr ''mean'' \<and> PStr ''trend'' \<noteq> PStr ''season'' \<and>
      PStr ''trend'' \<noteq> PStr ''arma''"
    by (simp add: example_unknown_def)
  from T1[THEN conjunct1, rule_format, OF ty]
  have c: "parse_component example_builtins example_unknown =
     Inl (ValueError unknown_component_type [PStr ''trend''])" .
  from T1 have o: "parse_observations (PDict [(''type'', PStr ''gaussian'')]) (locally_constant 1) =
     Inl (ValueError ''Model type {} is not valid'' [PStr ''gaussian''])"
    by auto
  from T2 have n: "parse_observations ?categorical (locally_constant 1) =
     Inl (ValueError categorical_needs [])"
    by auto
  have pre: "contains ''compose'' example_bad_conf = Inr False \<and>
      getitem example_bad_conf ''structure'' = Inr (PList ([example_mean] @ example_unknown # [])) \<and>
      mapM (parse_component example_builtins) [example_mean] =
        Inr [(locally_constant 1, [Identity], [PInt 0])] \<and>
      parse_component example_builtins example_unknown =
        Inl (ValueError unknown_component_type [PStr ''trend''])"
    by (simp add: example_bad_conf_def example_mean_builds c)
  from T1[THEN conjunct2, THEN conjunct2, THEN conjunct2, THEN conjunct1, rule_format, OF pre]
  have cm: "configuration_model example_builtins example_bad_conf =
      Inl (ValueError unknown_component_type [PStr ''trend''])" .
  have rd: "arg_conf example_args = Some ''conf.yml'' \<and> ''conf.yml'' \<noteq> [] \<and>
      read_conf ?L ''conf.yml'' = Inr example_bad_conf \<and>
      configuration_model example_builtins example_bad_conf =
        Inl (ValueError unknown_component_type [PStr ''trend''])"
    by (simp add: example_args_def read_conf_def example_library_def cm)
  from T1[THEN conjunct2, THEN conjunct2, THEN conjunct2, THEN conjunct2, THEN conjunct2,
      THEN conjunct2, THEN conjunct2, THEN conjunct2, rule_format, OF rd]
  have m1: "main example_builtins ?L example_args 3 example_world =
     (Inl (ValueError unknown_component_type [PStr ''trend'']), example_world)"
    by simp
  have el2: "getitem ?el2 ''structure'' = Inr (PList ([example_mean] @ example_unknown # [])) \<and>
      mapM (parse_component example_builtins) [example_mean] =
        Inr [(locally_constant 1, [Identity], [PInt 0])] \<and>
      parse_component example_builtins example_unknown =
        Inl (ValueError unknown_component_type [PStr ''trend''])"
    by (simp add: example_mean_builds c)
  from T3[THEN conjunct2, THEN conjunct2, THEN conjunct2, THEN conjunct2, THEN conjunct2,
      THEN conjunct1, rule_format, OF el2]
  have e2: "composite_element example_builtins ?el2 =
      Inl (ValueError unknown_component_type [PStr ''trend''])" .
  have e1: "composite_element example_builtins ?el1 =
      Inr ([PoissonDLM (locally_constant 1)], [Elem (PInt 0)], [Identity])"
    by (simp add: composite_element_def example_single_structure parse_observations_def)
  have cp: "contains ''compose'' example_bad_compose = Inr True \<and>
      getitem example_bad_compose ''compose'' = Inr (PList ([?el1] @ ?el2 # [])) \<and>
      mapM (composite_element example_builtins) [?el1] =
        Inr [([PoissonDLM (locally_constant 1)], [Elem (PInt 0)], [Identity])] \<and>
      composite_element example_builtins ?el2 =
        Inl (ValueError unknown_component_type [PStr ''trend''])"
    by (simp add: example_bad_compose_def e1 e2)
  from T3[THEN conjunct2, THEN conjunct2, THEN conjunct2, THEN conjunct2, THEN conjunct2,
      THEN conjunct2, THEN conjunct2, THEN conjunct1, rule_format, OF cp]
  have cmc: "configuration_model example_builtins example_bad_compose =
      Inl (ValueError unknown_component_type [PStr ''trend''])" .
  have rdc: "arg_conf example_args = Some ''conf.yml'' \<and> ''conf.yml'' \<noteq> [] \<and>
      read_conf ?Lc ''conf.yml'' = Inr example_bad_compose \<and>
      configuration_model example_builtins example_bad_compose =
        Inl (ValueError unknown_component_type [PStr ''trend''])"
    by (simp add: example_args_def read_conf_def example_library_def cmc)
  from T3[THEN conjunct2, THEN conjunct2, THEN conjunct2, THEN conjunct2, THEN conjunct2,
      THEN conjunct2, THEN conjunct2, THEN conjunct2, rule_format, OF rdc]
  have m2: "main example_builtins ?Lc example_args 3 example_world =
     (Inl (ValueError unknown_component_type [PStr ''trend'']), example_world)"
    by simp
  have el3: "getitem ?el3 ''structure'' = Inr (PList [example_mean]) \<and>
      parse_structure example_builtins (PList [example_mean]) =
        Inr (locally_constant 1, [PInt 0], np_eye 1, [Identity]) \<and>
      getitem ?el3 ''observations'' = Inr ?categorical \<and>
      parse_observations ?categorical (locally_constant 1) =
        Inl (ValueError categorical_needs []) \<and>
      (contains ''replicate'' ?el3 = Inr False \<or>
       (\<exists>n k. getitem ?el3 ''replicate'' = Inr n \<and> py_index n = Some k))"
    by (simp add: example_single_structure n)
  from T2[THEN conjunct2, THEN conjunct2, THEN conjunct2, THEN conjunct2, THEN conjunct2,
      THEN conjunct2, THEN conjunct1, rule_format, OF el3]
  have e3: "composite_element example_builtins ?el3 = Inl (ValueError categorical_needs [])" .
  have co: "contains ''compose'' example_bad_observation = Inr True \<and>
      getitem example_bad_observation ''compose'' = Inr (PList ([] @ ?el3 # [])) \<and>
      mapM (composite_element example_builtins) [] = Inr [] \<and>
      composite_element example_builtins ?el3 = Inl (ValueError categorical_needs [])"
    by (simp add: example_bad_observation_def e3)
  from T2[THEN conjunct2, THEN conjunct2, THEN conjunct2, THEN conjunct2, THEN conjunct2,
      THEN conjunct2, THEN conjunct2, THEN conjunct1, rule_format, OF co]
  have cmo: "configuration_model example_builtins example_bad_observation =
      Inl (ValueError categorical_needs [])" .
  have rdo: "arg_conf example_args = Some ''conf.yml'' \<and> ''conf.yml'' \<noteq> [] \<and>
      read_conf ?Lo ''conf.yml'' = Inr example_bad_observation \<and>
      configuration_model example_builtins example_bad_observation =
        Inl (ValueError categorical_needs [])"
    by (simp add: example_args_def read_conf_def example_library_def cmo)
  from T2[THEN conjunct2, THEN conjunct2, THEN conjunct2, THEN conjunct2, THEN conjunct2,
      THEN conjunct2, THEN conjunct2, THEN conjunct2, rule_format, OF rdo]
  have m3: "main example_builtins ?Lo example_args 3 example_world =
     (Inl (ValueError categorical_needs []), example_world)"
    by simp
  from c o n m1 m2 m3 show ?thesis by simp
qed

section \<open>The composite assembler\<close>

lemma list_times_singleton: "py_index n = Some k \<Longrightarrow> list_times [x] n = Inr (replicate (nat k) x)"
  by (simp add: list_times_def)

lemma composite_element_replicated:
  assumes "contains ''replicate'' el = Inr True"
    and "getitem el ''replicate'' = Inr n" and "py_index n = Some k"
    and "getitem el ''structure'' = Inr sc" and "parse_structure B sc = Inr (s, m0, Cm, an)"
    and "getitem el ''observations'' = Inr oc" and "parse_observations oc s = Inr model"
  shows "composite_element B el =
     Inr (replicate (nat k) model, replicate (nat k) (Row m0), concat (replicate (nat k) an))"
  using assms
  by (simp add: composite_element_def list_times_singleton) (simp add: list_times_def)

lemma example_replicated_structure:
  "parse_structure example_builtins (PList [example_mean, example_mean]) =
     Inr (structure_add (locally_constant 1) (locally_constant 1), [PInt 0, PInt 0], np_eye 2,
          [Identity, Identity])"
proof -
  have "mapM (parse_component example_builtins) [example_mean, example_mean] =
      Inr [(locally_constant 1, [Identity], [PInt 0]), (locally_constant 1, [Identity], [PInt 0])]"
    by (simp add: example_mean_builds)
  from parse_structure_PList[OF this] show ?thesis by (simp add: numeral_2_eq_2)
qed

text \<open>
  C3. An element replicated twice whose structure has two latent dimensions gives two
  models and four anomaly functions, and a prior mean of two entries, each the whole mean
  vector of the element, with a prior covariance of side 2: the mean vectors are not
  concatenated.
\<close>

theorem replicated_prior_mean:
  "parse_composite example_builtins (PList [example_replicated]) =
     Inr (CompositeTransformer
            [PoissonDLM (structure_add (locally_constant 1) (locally_constant 1)),
             PoissonDLM (structure_add (locally_constant 1) (locally_constant 1))],
          [Row [PInt 0, PInt 0], Row [PInt 0, PInt 0]], np_eye 2,
          [Identity, Identity, Identity, Identity])"
proof -
  have "composite_element example_builtins example_replicated =
     Inr (replicate (nat 2) (PoissonDLM (structure_add (locally_constant 1) (locally_constant 1))),
          replicate (nat 2) (Row [PInt 0, PInt 0]),
          concat (replicate (nat 2) [Identity, Identity]))"
    by (rule composite_element_replicated[where n = "PInt 2" and oc = "PDict [(''type'', PStr ''discrete'')]"
          and sc = "PList [example_mean, example_mean]" and Cm = "np_eye 2"])
      (simp_all add: example_replicated_def example_replicated_structure parse_observations_def)
  then show ?thesis
    by (simp add: parse_composite_def numeral_2_eq_2)
qed

section \<open>Messages\<close>

lemma emit_sent:
  assumes "emit B L topic model period name state p w = (r, w')"
  shows "sent (trace w') = sent (trace w) \<or>
         (\<exists>y m. build_message B name y = Inr m \<and> sent (trace w') = sent (trace w) @ [m])"
proof -
  have sa: "sent (es @ fs) = sent es @ sent fs" for es fs
    by (induction es rule: sent.induct) simp_all
  from assms show ?thesis
    by (auto simp: emit_def sa split: sum.splits prod.splits if_splits)
qed

text \<open>
  C8. A message is the encoded JSON text of a dictionary with the two keys \<^verbatim>\<open>name\<close>
  and \<^verbatim>\<open>value\<close> and no other, holding the series name and the observation; an
  iteration of the loop sends nothing or one such message.
\<close>

theorem build_message_two_keys:
  "(\<exists>d. build_message B name v = err_bind (json_dumps B (PDict d)) (\<lambda>s. Inr (encode s)) \<and>
        map fst d = [''name'', ''value''] \<and> dom (map_of d) = {''name'', ''value''} \<and>
        map_of d ''name'' = Some name \<and> map_of d ''value'' = Some v) \<and>
   (\<forall>L topic model period anomalies state w r w'.
      tick B L topic model period name anomalies state w = (r, w') \<longrightarrow>
      sent (trace w') = sent (trace w) \<or>
      (\<exists>y m. build_message B name y = Inr m \<and> sent (trace w') = sent (trace w) @ [m]))"
proof (intro conjI allI impI)
  show "\<exists>d. build_message B name v = err_bind (json_dumps B (PDict d)) (\<lambda>s. Inr (encode s)) \<and>
        map fst d = [''name'', ''value''] \<and> dom (map_of d) = {''name'', ''value''} \<and>
        map_of d ''name'' = Some name \<and> map_of d ''value'' = Some v"
    by (rule exI[of _ "[(''name'', name), (''value'', v)]"]) (auto simp: build_message_def)
next
  fix L :: "'g library" and topic model period anomalies state and w :: "'g world" and r w'
  assume t: "tick B L topic model period name anomalies state w = (r, w')"
  obtain q w1 where p: "perturb B anomalies state w = (q, w1)"
    by (cases "perturb B anomalies state w") auto
  then have tr: "trace w1 = trace w" by (rule perturb_trace)
  show "sent (trace w') = sent (trace w) \<or>
      (\<exists>y m. build_message B name y = Inr m \<and> sent (trace w') = sent (trace w) @ [m])"
  proof (cases q)
    case (Inl e)
    with t p tr show ?thesis by (simp add: tick_def)
  next
    case (Inr v)
    with t p have "emit B L topic model period name state v w1 = (r, w')"
      by (simp add: tick_def)
    from emit_sent[OF this] tr show ?thesis by simp
  qed
qed

section \<open>The defaults\<close>

lemma default_tick:
  assumes "model_observation L model [0] (np_rng w) = Inr (y, g1)"
    and "model_state L model [0] g1 = Inr (state', g2)"
    and "build_message B name y = Inr message"
    and "0 \<le> period"
  shows "tick B L topic model period name [Identity] [0] w =
     (Inr state', w\<lparr>np_rng := g2, trace := trace w @ [Send topic message, Sleep period]\<rparr>)"
  using assms
  by (simp add: tick_def perturb_def py_nth_def call_anomaly_def emit_def)

text \<open>
  C10. With no configuration file the loop runs on the fixed defaults: a locally constant
  structure of noise 1.0, whose noise covariance has one dimension, under a Gaussian model
  of variance 1.4, from the state \<open>[0]\<close>, with period 2.0, the name \<^verbatim>\<open>data\<close> and one
  identity anomaly function, which leaves the state as it is. Its first iteration
  observes the state \<open>[0]\<close> under that model, sends the message named \<^verbatim>\<open>data\<close> with the
  observation, advances the state \<open>[0]\<close> and sleeps 2.0 seconds; the loop goes on from
  the state the model returns.
\<close>

theorem no_configuration_defaults:
  assumes "arg_conf a = None \<or> arg_conf a = Some []"
  shows "main_setup B L a w =
           (Inr (NormalDLM (locally_constant 1) (PFloat (14 / 10)), [0], 2, PStr ''data'',
                 [Identity]), w) \<and>
         main B L a n w =
           run_loop B L (arg_topic a) (NormalDLM (locally_constant 1) (PFloat (14 / 10))) 2
             (PStr ''data'') [Identity] n [0] w \<and>
         is_square 1 (structure_W (locally_constant 1)) \<and>
         perturb B [Identity] [0] w = (Inr [0], w) \<and>
         (\<forall>y g1 state' g2 message.
            model_observation L (NormalDLM (locally_constant 1) (PFloat (14 / 10))) [0] (np_rng w) =
              Inr (y, g1) \<and>
            model_state L (NormalDLM (locally_constant 1) (PFloat (14 / 10))) [0] g1 =
              Inr (state', g2) \<and>
            build_message B (PStr ''data'') y = Inr message \<longrightarrow>
            main B L a (Suc n) w =
              run_loop B L (arg_topic a) (NormalDLM (locally_constant 1) (PFloat (14 / 10))) 2
                (PStr ''data'') [Identity] n state'
                (w\<lparr>np_rng := g2,
                   trace := trace w @ [Send (arg_topic a) message, Sleep 2]\<rparr>))"
proof -
  let ?M = "NormalDLM (locally_constant 1) (PFloat (14 / 10))"
  have init: "main_setup B L a w = (Inr (?M, [0], 2, PStr ''data'', [Identity]), w)"
    using assms by (auto simp: main_setup_def)
  have run: "main B L a k w = run_loop B L (arg_topic a) ?M 2 (PStr ''data'') [Identity] k [0] w"
    for k
    by (simp add: main_def init)
  have first: "main B L a (Suc n) w =
      run_loop B L (arg_topic a) ?M 2 (PStr ''data'') [Identity] n state'
        (w\<lparr>np_rng := g2, trace := trace w @ [Send (arg_topic a) message, Sleep 2]\<rparr>)"
    if "model_observation L ?M [0] (np_rng w) = Inr (y, g1) \<and>
        model_state L ?M [0] g1 = Inr (state', g2) \<and>
        build_message B (PStr ''data'') y = Inr message"
    for y g1 state' g2 message
  proof -
    from that have o: "model_observation L ?M [0] (np_rng w) = Inr (y, g1)"
      and s: "model_state L ?M [0] g1 = Inr (state', g2)"
      and b: "build_message B (PStr ''data'') y = Inr message"
      by blast+
    have "tick B L (arg_topic a) ?M 2 (PStr ''data'') [Identity] [0] w =
        (Inr state', w\<lparr>np_rng := g2, trace := trace w @ [Send (arg_topic a) message, Sleep 2]\<rparr>)"
      by (rule default_tick[OF o s b]) simp
    then show ?thesis by (simp add: run)
  qed
  have sq: "is_square 1 (structure_W (locally_constant 1))"
    by (simp add: is_square_def)
  have p: "perturb B [Identity] [0] w = (Inr [0], w)"
    by (simp add: perturb_def py_nth_def call_anomaly_def)
  from init run[of n] sq p first show ?thesis by blast
qed

theorem no_configuration_defaults_witness:
  "main example_builtins example_library
     \<lparr>arg_brokers = ''localhost:9092'', arg_topic = ''data'', arg_conf = None\<rparr> 2 example_world =
   (Inr [2],
    \<lparr>randoms = (\<lambda>n. if even n then 1 / 4 else 3 / 4), drawn = 0, np_rng = 4,
      trace = [Send ''data'' (example_message ''low''), Sleep 2,
               Send ''data'' (example_message ''low''), Sleep 2]\<rparr>)"
proof -
  let ?a = "\<lparr>arg_brokers = ''localhost:9092'', arg_topic = ''data'', arg_conf = None\<rparr>"
  let ?M = "NormalDLM (locally_constant 1) (PFloat (14 / 10))"
  have h: "arg_conf ?a = None \<or> arg_conf ?a = Some []" by simp
  have first: "model_observation example_library ?M [0] (np_rng example_world) =
        Inr (PStr ''low'', 1) \<and>
      model_state example_library ?M [0] 1 = Inr ([1], 2) \<and>
      build_message example_builtins (PStr ''data'') (PStr ''low'') =
        Inr (example_message ''low'')"
    by (simp add: example_library_def example_world_def build_message_def example_builtins_def
        encode_def example_message_def)
  from no_configuration_defaults[OF h, of example_builtins example_library example_world "Suc 0",
      THEN conjunct2, THEN conjunct2, THEN conjunct2, THEN conjunct2, rule_format, OF first]
  have step: "main example_builtins example_library ?a (Suc (Suc 0)) example_world =
      run_loop example_builtins example_library ''data'' ?M 2 (PStr ''data'') [Identity] (Suc 0)
        [1]
        (example_world\<lparr>np_rng := 2,
           trace := trace example_world @ [Send ''data'' (example_message ''low''), Sleep 2]\<rparr>)"
    by simp
  have second: "tick example_builtins example_library ''data'' ?M 2 (PStr ''data'') [Identity] [1]
        (example_world\<lparr>np_rng := 2,
           trace := trace example_world @ [Send ''data'' (example_message ''low''), Sleep 2]\<rparr>) =
      (Inr [2],
       \<lparr>randoms = (\<lambda>n. if even n then 1 / 4 else 3 / 4), drawn = 0, np_rng = 4,
         trace = [Send ''data'' (example_message ''low''), Sleep 2,
                  Send ''data'' (example_message ''low''), Sleep 2]\<rparr>)"
    by (simp add: tick_def perturb_def py_nth_def call_anomaly_def array_times_def emit_def
        example_library_def example_world_def build_message_def example_builtins_def
        encode_def example_message_def)
  have "main example_builtins example_library ?a 2 example_world =
      main example_builtins example_library ?a (Suc (Suc 0)) example_world"
    by (simp add: numeral_2_eq_2)
  also note step
  also have "run_loop example_builtins example_library ''data'' ?M 2 (PStr ''data'') [Identity]
        (Suc 0) [1]
        (example_world\<lparr>np_rng := 2,
           trace := trace example_world @ [Send ''data'' (example_message ''low''), Sleep 2]\<rparr>) =
      (Inr [2],
       \<lparr>randoms = (\<lambda>n. if even n then 1 / 4 else 3 / 4), drawn = 0, np_rng = 4,
         trace = [Send ''data'' (example_message ''low''), Sleep 2,
                  Send ''data'' (example_message ''low''), Sleep 2]\<rparr>)"
    unfolding run_loop.simps second by simp
  finally show ?thesis .
qed

section \<open>The simulation loop\<close>

lemma call_anomaly_array:
  "call_anomaly B array_times a [x] w =
     (case call_anomaly B (*) a x w of (Inl e, w') \<Rightarrow> (Inl e, w') | (Inr v, w') \<Rightarrow> (Inr [v], w'))"
  by (auto simp: call_anomaly_def array_times_def split: prod.splits sum.splits option.splits)

lemma perturb_loop_refines:
  assumes "m \<le> length state" and "length acc = length state"
  shows "perturb_loop B anomalies state [m..<length state] acc w =
     (case apply_anomalies B (drop m anomalies) (drop m state) w of
        (Inl e, w') \<Rightarrow> (Inl e, w')
      | (Inr vs, w') \<Rightarrow> (Inr (take m acc @ vs), w'))"
  using assms
proof (induction "length state - m" arbitrary: m acc w)
  case 0
  then show ?case by simp
next
  case (Suc k)
  then have m: "m < length state" by simp
  have upt: "[m..<length state] = m # [Suc m..<length state]"
    using m by (simp add: upt_conv_Cons)
  have ds: "drop m state = state ! m # drop (Suc m) state"
    using m by (simp add: Cons_nth_drop_Suc)
  show ?case
  proof (cases "m < length anomalies")
    case False
    then show ?thesis by (simp add: upt ds py_nth_def)
  next
    case True
    then have da: "drop m anomalies = anomalies ! m # drop (Suc m) anomalies"
      by (simp add: Cons_nth_drop_Suc)
    obtain q w1 where c: "call_anomaly B (*) (anomalies ! m) (state ! m) w = (q, w1)"
      by (cases "call_anomaly B (*) (anomalies ! m) (state ! m) w") auto
    show ?thesis
    proof (cases q)
      case (Inl e)
      with True c show ?thesis by (simp add: upt ds da py_nth_def)
    next
      case (Inr v)
      have k: "k = length state - Suc m" using Suc.hyps(2) by simp
      have IH: "perturb_loop B anomalies state [Suc m..<length state] (acc[m := v]) w1 =
         (case apply_anomalies B (drop (Suc m) anomalies) (drop (Suc m) state) w1 of
            (Inl e, w') \<Rightarrow> (Inl e, w')
          | (Inr vs, w') \<Rightarrow> (Inr (take (Suc m) (acc[m := v]) @ vs), w'))"
        using Suc.hyps(1)[OF k] m Suc.prems(2) by simp
      have tk: "take (Suc m) (acc[m := v]) = take m acc @ [v]"
        using m Suc.prems(2) by (simp add: take_Suc_conv_app_nth)
      show ?thesis
        using True c Inr
        by (simp add: upt ds da py_nth_def IH tk split: prod.splits sum.splits)
    qed
  qed
qed

lemma perturb_refines: "perturb B anomalies state w = apply_anomalies B anomalies state w"
proof (cases "length state = 1")
  case True
  then obtain x where x: "state = [x]" by (cases state) auto
  show ?thesis
  proof (cases anomalies)
    case Nil
    then show ?thesis by (simp add: perturb_def x py_nth_def)
  next
    case (Cons a as)
    then show ?thesis
      by (simp add: perturb_def x py_nth_def call_anomaly_array split: prod.splits sum.splits)
  qed
next
  case False
  have "perturb B anomalies state w = perturb_loop B anomalies state [0..<length state] state w"
    using False by (simp add: perturb_def Let_def)
  also have "\<dots> = apply_anomalies B anomalies state w"
    using perturb_loop_refines[of 0 state state B anomalies w]
    by (simp split: prod.splits sum.splits)
  finally show ?thesis .
qed

lemma apply_anomalies_length:
  "apply_anomalies B anomalies state w = (Inr vs, w') \<Longrightarrow> length vs = length state"
proof (induction state arbitrary: anomalies w vs w')
  case Nil
  then show ?case by simp
next
  case (Cons x xs)
  show ?case
  proof (cases anomalies)
    case Nil
    with Cons.prems show ?thesis by simp
  next
    case (Cons a as)
    obtain q w1 where c: "call_anomaly B (*) a x w = (q, w1)"
      by (cases "call_anomaly B (*) a x w") auto
    obtain q2 w2 where r: "apply_anomalies B as xs w1 = (q2, w2)"
      by (cases "apply_anomalies B as xs w1") auto
    from Cons.prems Cons c r obtain v vs' where "q = Inr v" "q2 = Inr vs'" "vs = v # vs'" "w' = w2"
      by (auto split: sum.splits)
    with r Cons.IH[of as w1 vs' w2] show ?thesis by simp
  qed
qed

lemma emit_Inr:
  assumes "emit B L topic model period name state p w = (Inr state', w')"
  shows "\<exists>y g1 g2 message.
     model_observation L model p (np_rng w) = Inr (y, g1) \<and>
     model_state L model state g1 = Inr (state', g2) \<and>
     build_message B name y = Inr message \<and>
     w' = w\<lparr>np_rng := g2, trace := trace w @ [Send topic message, Sleep period]\<rparr>"
  using assms
  by (auto simp: emit_def split: sum.splits prod.splits if_splits)

lemma tick_Inr:
  assumes "tick B L topic model period name anomalies state w = (Inr state', w')"
  shows "\<exists>perturbed w1 y g1 g2 message.
     perturb B anomalies state w = (Inr perturbed, w1) \<and>
     model_observation L model perturbed (np_rng w1) = Inr (y, g1) \<and>
     model_state L model state g1 = Inr (state', g2) \<and>
     build_message B name y = Inr message \<and>
     w' = w1\<lparr>np_rng := g2, trace := trace w1 @ [Send topic message, Sleep period]\<rparr>"
proof -
  obtain q w1 where p: "perturb B anomalies state w = (q, w1)"
    by (cases "perturb B anomalies state w") auto
  show ?thesis
  proof (cases q)
    case (Inl e)
    with assms p show ?thesis by (simp add: tick_def)
  next
    case (Inr v)
    with assms p have "emit B L topic model period name state v w1 = (Inr state', w')"
      by (simp add: tick_def)
    from emit_Inr[OF this] p Inr show ?thesis by blast
  qed
qed

lemma run_loop_Suc_Inr:
  assumes "run_loop B L topic model period name anomalies (Suc k) state w = (Inr state', w')"
  shows "\<exists>sk wk. run_loop B L topic model period name anomalies k state w = (Inr sk, wk) \<and>
           tick B L topic model period name anomalies sk wk = (Inr state', w')"
  using assms
proof (induction k arbitrary: state w)
  case 0
  then show ?case by (auto split: prod.splits sum.splits)
next
  case (Suc k)
  obtain q w1 where t: "tick B L topic model period name anomalies state w = (q, w1)"
    by (cases "tick B L topic model period name anomalies state w") auto
  show ?case
  proof (cases q)
    case (Inl e)
    with Suc.prems t show ?thesis by simp
  next
    case (Inr s1)
    with Suc.prems t
    have "run_loop B L topic model period name anomalies (Suc k) s1 w1 = (Inr state', w')"
      by simp
    from Suc.IH[OF this] obtain sk wk where
      "run_loop B L topic model period name anomalies k s1 w1 = (Inr sk, wk)"
      "tick B L topic model period name anomalies sk wk = (Inr state', w')"
      by blast
    with t Inr show ?thesis by simp
  qed
qed


text \<open>
  C1. In every iteration of the loop that completes, the message sent carries the
  observation of the perturbed state, which is the state carried into the iteration with
  the anomaly function of each dimension applied to its entry, and the state carried out
  is the model's successor of the state carried in, not of the perturbed one.
\<close>

theorem observation_from_perturbed_state:
  assumes "run_loop B L topic model period name anomalies (Suc k) state w = (Inr state', w')"
  shows "\<exists>sk wk perturbed w1 y g1 g2 message.
     run_loop B L topic model period name anomalies k state w = (Inr sk, wk) \<and>
     perturb B anomalies sk wk = (Inr perturbed, w1) \<and>
     apply_anomalies B anomalies sk wk = (Inr perturbed, w1) \<and>
     length perturbed = length sk \<and>
     model_observation L model perturbed (np_rng w1) = Inr (y, g1) \<and>
     model_state L model sk g1 = Inr (state', g2) \<and>
     build_message B name y = Inr message \<and>
     trace w' = trace wk @ [Send topic message, Sleep period]"
proof -
  from run_loop_Suc_Inr[OF assms] obtain sk wk where
    k: "run_loop B L topic model period name anomalies k state w = (Inr sk, wk)"
    and t: "tick B L topic model period name anomalies sk wk = (Inr state', w')"
    by blast
  from tick_Inr[OF t] obtain perturbed w1 y g1 g2 message where
    p: "perturb B anomalies sk wk = (Inr perturbed, w1)"
    and o: "model_observation L model perturbed (np_rng w1) = Inr (y, g1)"
    and s: "model_state L model sk g1 = Inr (state', g2)"
    and b: "build_message B name y = Inr message"
    and w': "w' = w1\<lparr>np_rng := g2, trace := trace w1 @ [Send topic message, Sleep period]\<rparr>"
    by blast
  from p have a: "apply_anomalies B anomalies sk wk = (Inr perturbed, w1)"
    by (simp add: perturb_refines)
  from a have l: "length perturbed = length sk" by (rule apply_anomalies_length)
  from p have "trace w1 = trace wk" by (rule perturb_trace)
  with w' have "trace w' = trace wk @ [Send topic message, Sleep period]" by simp
  with k p a l o s b show ?thesis by blast
qed

lemma example_tick:
  "tick example_builtins example_library ''data'' (PoissonDLM (locally_constant 1)) 2
     (PStr ''data'') [Bernoulli example_certain, Bernoulli example_certain] [x, y]
     \<lparr>randoms = (\<lambda>n. if even n then 1 / 4 else 3 / 4), drawn = d, np_rng = g, trace = tr\<rparr> =
   (Inr [x + 1, y + 1],
    \<lparr>randoms = (\<lambda>n. if even n then 1 / 4 else 3 / 4), drawn = Suc (Suc d),
      np_rng = Suc (Suc g),
      trace = tr @ [Send ''data''
                      (example_message (if 5 < 10 * x + 10 * y then ''high'' else ''low'')),
                    Sleep 2]\<rparr>)"
  by (simp add: tick_def perturb_def py_nth_def call_anomaly_def float_less_def
      example_certain_def example_builtins_def example_library_def emit_def build_message_def
      encode_def upt_conv_Cons example_message_def)


lemma example_tick_1:
  "tick example_builtins example_library ''data'' (PoissonDLM (locally_constant 1)) 2
     (PStr ''data'') [Bernoulli example_certain, Bernoulli example_certain] [1, 2]
     example_world =
   (Inr [2, 3],
    \<lparr>randoms = (\<lambda>n. if even n then 1 / 4 else 3 / 4), drawn = 2, np_rng = 2,
      trace = [Send ''data'' (example_message ''high''), Sleep 2]\<rparr>)"
  using example_tick[of 1 2 0 0 "[]"] by (simp add: example_world_def)

lemma example_tick_2:
  "tick example_builtins example_library ''data'' (PoissonDLM (locally_constant 1)) 2
     (PStr ''data'') [Bernoulli example_certain, Bernoulli example_certain] [2, 3]
     \<lparr>randoms = (\<lambda>n. if even n then 1 / 4 else 3 / 4), drawn = 2, np_rng = 2,
      trace = [Send ''data'' (example_message ''high''), Sleep 2]\<rparr> =
   (Inr [3, 4],
    \<lparr>randoms = (\<lambda>n. if even n then 1 / 4 else 3 / 4), drawn = 4, np_rng = 4,
      trace = [Send ''data'' (example_message ''high''), Sleep 2,
               Send ''data'' (example_message ''high''), Sleep 2]\<rparr>)"
  using example_tick[of 2 3 2 2 "[Send ''data'' (example_message ''high''), Sleep 2]"]
  by simp

lemma example_run_1:
  "run_loop example_builtins example_library ''data'' (PoissonDLM (locally_constant 1)) 2
     (PStr ''data'') [Bernoulli example_certain, Bernoulli example_certain] 1 [1, 2]
     example_world =
   (Inr [2, 3],
    \<lparr>randoms = (\<lambda>n. if even n then 1 / 4 else 3 / 4), drawn = 2, np_rng = 2,
      trace = [Send ''data'' (example_message ''high''), Sleep 2]\<rparr>)"
  by (simp add: example_tick_1)

lemma example_run_2:
  "run_loop example_builtins example_library ''data'' (PoissonDLM (locally_constant 1)) 2
     (PStr ''data'') [Bernoulli example_certain, Bernoulli example_certain] (Suc 1) [1, 2]
     example_world =
   (Inr [3, 4],
    \<lparr>randoms = (\<lambda>n. if even n then 1 / 4 else 3 / 4), drawn = 4, np_rng = 4,
      trace = [Send ''data'' (example_message ''high''), Sleep 2,
               Send ''data'' (example_message ''high''), Sleep 2]\<rparr>)"
  by (simp add: example_tick_1 example_tick_2)

theorem observation_from_perturbed_state_witness:
  "run_loop example_builtins example_library ''data'' (PoissonDLM (locally_constant 1)) 2
     (PStr ''data'') [Bernoulli example_certain, Bernoulli example_certain] (Suc 1) [1, 2]
     example_world =
   (Inr [3, 4],
    \<lparr>randoms = (\<lambda>n. if even n then 1 / 4 else 3 / 4), drawn = 4, np_rng = 4,
      trace = [Send ''data'' (example_message ''high''), Sleep 2,
               Send ''data'' (example_message ''high''), Sleep 2]\<rparr>) \<and>
   (\<exists>w1 y g1 g2.
      apply_anomalies example_builtins [Bernoulli example_certain, Bernoulli example_certain]
        [2, 3]
        \<lparr>randoms = (\<lambda>n. if even n then 1 / 4 else 3 / 4), drawn = 2, np_rng = 2,
          trace = [Send ''data'' (example_message ''high''), Sleep 2]\<rparr> =
        (Inr [20, 30], w1) \<and>
      model_observation example_library (PoissonDLM (locally_constant 1)) [20, 30] (np_rng w1) =
        Inr (y, g1) \<and>
      model_state example_library (PoissonDLM (locally_constant 1)) [2, 3] g1 =
        Inr ([3, 4], g2))"
proof -
  let ?an = "[Bernoulli example_certain, Bernoulli example_certain]"
  let ?w1 = "\<lparr>randoms = (\<lambda>n. if even n then 1 / 4 else 3 / 4), drawn = 2, np_rng = 2,
          trace = [Send ''data'' (example_message ''high''), Sleep 2]\<rparr> :: nat world"
  from observation_from_perturbed_state[OF example_run_2]
  obtain sk wk perturbed w1 y g1 g2 where
    k: "run_loop example_builtins example_library ''data'' (PoissonDLM (locally_constant 1)) 2
          (PStr ''data'') ?an 1 [1, 2] example_world = (Inr sk, wk)"
    and a: "apply_anomalies example_builtins ?an sk wk = (Inr perturbed, w1)"
    and o: "model_observation example_library (PoissonDLM (locally_constant 1)) perturbed
              (np_rng w1) = Inr (y, g1)"
    and s: "model_state example_library (PoissonDLM (locally_constant 1)) sk g1 =
              Inr ([3, 4], g2)"
    by blast
  from k[unfolded example_run_1] have sk: "sk = [2, 3]" and wk: "wk = ?w1"
    by simp_all
  have ev: "apply_anomalies example_builtins ?an [2, 3] ?w1 = (Inr [20, 30], ?w1\<lparr>drawn := 4\<rparr>)"
    by (simp add: call_anomaly_def float_less_def example_certain_def example_builtins_def)
  from a[unfolded sk wk ev] have p: "perturbed = [20, 30]" and w1: "w1 = ?w1\<lparr>drawn := 4\<rparr>"
    by simp_all
  have "apply_anomalies example_builtins ?an [2, 3] ?w1 = (Inr [20, 30], w1) \<and>
      model_observation example_library (PoissonDLM (locally_constant 1)) [20, 30] (np_rng w1) =
        Inr (y, g1) \<and>
      model_state example_library (PoissonDLM (locally_constant 1)) [2, 3] g1 =
        Inr ([3, 4], g2)"
    using ev o s unfolding p sk w1 by simp
  then have "\<exists>w1 y g1 g2.
      apply_anomalies example_builtins ?an [2, 3] ?w1 = (Inr [20, 30], w1) \<and>
      model_observation example_library (PoissonDLM (locally_constant 1)) [20, 30] (np_rng w1) =
        Inr (y, g1) \<and>
      model_state example_library (PoissonDLM (locally_constant 1)) [2, 3] g1 =
        Inr ([3, 4], g2)"
    by (intro exI)
  with example_run_2 show ?thesis by (rule conjI)
qed

theorem build_message_two_keys_witness:
  "tick example_builtins example_library ''data'' (PoissonDLM (locally_constant 1)) 2
     (PStr ''data'') [Bernoulli example_certain, Bernoulli example_certain] [1, 2]
     example_world =
   (Inr [2, 3],
    \<lparr>randoms = (\<lambda>n. if even n then 1 / 4 else 3 / 4), drawn = 2, np_rng = 2,
      trace = [Send ''data'' (example_message ''high''), Sleep 2]\<rparr>) \<and>
   (\<exists>y. build_message example_builtins (PStr ''data'') y = Inr (example_message ''high''))"
proof -
  let ?w1 = "\<lparr>randoms = (\<lambda>n. if even n then 1 / 4 else 3 / 4), drawn = 2, np_rng = 2,
          trace = [Send ''data'' (example_message ''high''), Sleep 2]\<rparr> :: nat world"
  have t: "tick example_builtins example_library ''data'' (PoissonDLM (locally_constant 1)) 2
     (PStr ''data'') [Bernoulli example_certain, Bernoulli example_certain] [1, 2]
     example_world = (Inr [2, 3], ?w1)"
    by (rule example_tick_1)
  from build_message_two_keys[of example_builtins "PStr ''data''" PNone,
      THEN conjunct2, rule_format, OF t]
  have "sent (trace ?w1) = sent (trace example_world) \<or>
      (\<exists>y m. build_message example_builtins (PStr ''data'') y = Inr m \<and>
        sent (trace ?w1) = sent (trace example_world) @ [m])" .
  then have "\<exists>y. build_message example_builtins (PStr ''data'') y = Inr (example_message ''high'')"
    by (auto simp: example_world_def)
  with t show ?thesis by blast
qed

end
